theory Spec2Isabelle
  imports Main
begin

section \<open>JavaScript values\<close>

text \<open>
  The values the connection wrapper and the decoders handle. A number is a double; the
  model keeps the integer-valued doubles, negative zero, NaN and the two infinities, which
  are the numbers \<open>parseInt\<close> can return. (The statement builder only asks a number
  for its type and compares it with the members of an enum, so a double with a fraction
  behaves there as any integer that is no member does.) An object is the list of its own
  enumerable properties in \<open>for ... in\<close> order (property names are distinct).
\<close>

datatype number = Fin int | NegZero | NaN | PosInf | NegInf

datatype jsval =
    JUndefined
  | JNull
  | JBool bool
  | JNum number
  | JStr string
  | JBigInt int
  | JObj "(string \<times> jsval) list"

datatype error = TypeError | SyntaxError

fun typeof :: "jsval \<Rightarrow> string" where
  "typeof JUndefined = ''undefined''"
| "typeof JNull = ''object''"
| "typeof (JBool b) = ''boolean''"
| "typeof (JNum n) = ''number''"
| "typeof (JStr s) = ''string''"
| "typeof (JBigInt i) = ''bigint''"
| "typeof (JObj fs) = ''object''"

text \<open>
  Reading a property \<open>v.name\<close>: a TypeError on \<open>null\<close> and \<open>undefined\<close>, the
  property's value on an object that has it, \<open>undefined\<close> otherwise. The names this
  program reads (\<open>raw\<close>, \<open>value\<close>, \<open>operator\<close>, \<open>betweenUpperValue\<close>) are no
  property of a primitive's prototype.
\<close>

fun get_prop :: "jsval \<Rightarrow> string \<Rightarrow> error + jsval" where
  "get_prop JUndefined name = Inl TypeError"
| "get_prop JNull name = Inl TypeError"
| "get_prop (JObj fs) name = (case map_of fs name of None \<Rightarrow> Inr JUndefined | Some v \<Rightarrow> Inr v)"
| "get_prop v name = Inr JUndefined"

text \<open>The loose comparison \<open>v != null\<close>: false on \<open>null\<close> and \<open>undefined\<close> only.\<close>

fun not_nullish :: "jsval \<Rightarrow> bool" where
  "not_nullish JUndefined = False"
| "not_nullish JNull = False"
| "not_nullish v = True"

text \<open>\<open>n.toString()\<close> of an array length, in decimal.\<close>

fun toString :: "nat \<Rightarrow> string" where
  "toString n =
     (if n < 10 then [''0123456789'' ! n]
      else toString (n div 10) @ [''0123456789'' ! (n mod 10)])"

declare toString.simps [simp del]

text \<open>\<open>Array.prototype.join\<close> on an array of strings.\<close>

fun join :: "string \<Rightarrow> string list \<Rightarrow> string" where
  "join sep [] = []"
| "join sep [x] = x"
| "join sep (x # y # ys) = x @ sep @ join sep (y # ys)"

section \<open>The statement builder of the connection wrapper\<close>

datatype ConflictAction = ConflictAction_None | ConflictAction_Ignore | ConflictAction_Update

record ReturningOptions =
  expression :: string
  as :: "string option"

record InsertOptions =
  conflictAction :: "string option"
  conflictKeys :: "string list option"
  returning :: "ReturningOptions list option"

datatype WhereConditionOperator =
  Equal | NotEqual | Less | LessOrEqual | Greater | GreaterOrEqual | Between

text \<open>
  The value of each enum member, and the member a \<open>switch\<close> on a value selects: strict
  equality with the member's number (\<open>-0 === 0\<close> holds), no member for anything else.
\<close>

fun operator_code :: "WhereConditionOperator \<Rightarrow> int" where
  "operator_code Equal = 0"
| "operator_code NotEqual = 1"
| "operator_code Less = 2"
| "operator_code LessOrEqual = 3"
| "operator_code Greater = 4"
| "operator_code GreaterOrEqual = 5"
| "operator_code Between = 6"

fun switch_operator :: "jsval \<Rightarrow> WhereConditionOperator option" where
  "switch_operator (JNum (Fin i)) =
     (if i = 0 then Some Equal else if i = 1 then Some NotEqual
      else if i = 2 then Some Less else if i = 3 then Some LessOrEqual
      else if i = 4 then Some Greater else if i = 5 then Some GreaterOrEqual
      else if i = 6 then Some Between else None)"
| "switch_operator (JNum NegZero) = Some Equal"
| "switch_operator v = None"

subsection \<open>Raw fragments\<close>

text \<open>
  The test \<open>typeof v === 'object' && typeof v.raw === 'string'\<close> of insert and update.
  \<open>&&\<close> evaluates \<open>v.raw\<close> only when the first operand holds.
\<close>

definition is_raw :: "jsval \<Rightarrow> error + bool" where
  "is_raw v =
     (if typeof v = ''object'' then
        (case get_prop v ''raw'' of
           Inl e \<Rightarrow> Inl e
         | Inr r \<Rightarrow> Inr (typeof r = ''string''))
      else Inr False)"

text \<open>The text \<open>v.raw\<close> that the raw branch inlines; the branch is taken when it is a string.\<close>

fun raw_text :: "jsval \<Rightarrow> string" where
  "raw_text (JObj fs) = (case map_of fs ''raw'' of Some (JStr s) \<Rightarrow> s | _ \<Rightarrow> [])"
| "raw_text v = []"

subsection \<open>insert\<close>

record insert_state =
  params :: "jsval list"
  columns :: "string list"
  columnValues :: "string list"
  conflictColumns :: "string list"
  upsertColumns :: "string list"

definition parse_conflictAction :: "InsertOptions option \<Rightarrow> ConflictAction" where
  "parse_conflictAction options =
     (case options of
        None \<Rightarrow> ConflictAction_None
      | Some opts \<Rightarrow>
          if conflictAction opts = Some ''update'' then ConflictAction_Update
          else if conflictAction opts = Some ''ignore'' then ConflictAction_Ignore
          else ConflictAction_None)"

text \<open>
  \<open>options!.conflictKeys!.includes(columnName)\<close>: the non-null assertions are erased at
  run time, so a missing \<open>conflictKeys\<close> is a TypeError.
\<close>

definition keys_include :: "string list option \<Rightarrow> string \<Rightarrow> error + bool" where
  "keys_include keys columnName =
     (case keys of None \<Rightarrow> Inl TypeError | Some ks \<Rightarrow> Inr (columnName \<in> set ks))"

text \<open>
  The \<open>switch (conflictAction)\<close> of the loop body; \<open>assignment\<close> is the text pushed to
  \<open>upsertColumns\<close> for a column that is no conflict key.
\<close>

definition classify_conflict ::
  "ConflictAction \<Rightarrow> string list option \<Rightarrow> string \<Rightarrow> string \<Rightarrow> string \<Rightarrow>
   insert_state \<Rightarrow> error + insert_state" where
  "classify_conflict ca keys columnName sanitizedColumnName assignment st =
     (case ca of
        ConflictAction_None \<Rightarrow> Inr st
      | ConflictAction_Ignore \<Rightarrow>
          (case keys_include keys columnName of
             Inl e \<Rightarrow> Inl e
           | Inr True \<Rightarrow> Inr (st\<lparr>conflictColumns := conflictColumns st @ [sanitizedColumnName]\<rparr>)
           | Inr False \<Rightarrow> Inr st)
      | ConflictAction_Update \<Rightarrow>
          (case keys_include keys columnName of
             Inl e \<Rightarrow> Inl e
           | Inr True \<Rightarrow> Inr (st\<lparr>conflictColumns := conflictColumns st @ [sanitizedColumnName]\<rparr>)
           | Inr False \<Rightarrow> Inr (st\<lparr>upsertColumns := upsertColumns st @ [assignment]\<rparr>)))"

text \<open>One iteration of the loop over \<open>values\<close> in insert.\<close>

definition insert_column ::
  "(string \<Rightarrow> string) \<Rightarrow> ConflictAction \<Rightarrow> string list option \<Rightarrow>
   string \<times> jsval \<Rightarrow> insert_state \<Rightarrow> error + insert_state" where
  "insert_column escapeIdentifier ca keys entry st =
     (let columnName = fst entry; v = snd entry;
          sanitizedColumnName = escapeIdentifier columnName;
          st1 = st\<lparr>columns := columns st @ [sanitizedColumnName]\<rparr>
      in case is_raw v of
           Inl e \<Rightarrow> Inl e
         | Inr False \<Rightarrow>
             (let ps = params st1 @ [v];
                  st2 = st1\<lparr>params := ps,
                           columnValues := columnValues st1 @ [''$'' @ toString (length ps)]\<rparr>
              in classify_conflict ca keys columnName sanitizedColumnName
                   (sanitizedColumnName @ '' = $'' @ toString (length ps)) st2)
         | Inr True \<Rightarrow>
             (let st2 = st1\<lparr>columnValues := columnValues st1 @ [raw_text v]\<rparr>
              in classify_conflict ca keys columnName sanitizedColumnName
                   (sanitizedColumnName @ '' = '' @ raw_text v) st2))"

fun insert_loop ::
  "(string \<Rightarrow> string) \<Rightarrow> ConflictAction \<Rightarrow> string list option \<Rightarrow>
   (string \<times> jsval) list \<Rightarrow> insert_state \<Rightarrow> error + insert_state" where
  "insert_loop escapeIdentifier ca keys [] st = Inr st"
| "insert_loop escapeIdentifier ca keys (entry # rest) st =
     (case insert_column escapeIdentifier ca keys entry st of
        Inl e \<Rightarrow> Inl e
      | Inr st' \<Rightarrow> insert_loop escapeIdentifier ca keys rest st')"

text \<open>addReturningToSQL: \<open>item.as\<close> is truthy when it is a non-empty string.\<close>

definition returning_expr :: "(string \<Rightarrow> string) \<Rightarrow> ReturningOptions \<Rightarrow> string" where
  "returning_expr escapeIdentifier item =
     (case as item of
        None \<Rightarrow> expression item
      | Some a \<Rightarrow>
          if a \<noteq> [] then expression item @ '' AS '' @ escapeIdentifier a
          else expression item)"

definition addReturningToSQL ::
  "(string \<Rightarrow> string) \<Rightarrow> string list \<Rightarrow> ReturningOptions list option \<Rightarrow> string list" where
  "addReturningToSQL escapeIdentifier sql ret =
     (case ret of
        None \<Rightarrow> sql
      | Some items \<Rightarrow>
          sql @ ['' RETURNING '', join '', '' (map (returning_expr escapeIdentifier) items)])"

definition options_returning :: "InsertOptions option \<Rightarrow> ReturningOptions list option" where
  "options_returning options = (case options of None \<Rightarrow> None | Some opts \<Rightarrow> returning opts)"

definition options_conflictKeys :: "InsertOptions option \<Rightarrow> string list option" where
  "options_conflictKeys options = (case options of None \<Rightarrow> None | Some opts \<Rightarrow> conflictKeys opts)"

definition empty_insert_state :: insert_state where
  "empty_insert_state =
     \<lparr>params = [], columns = [], columnValues = [], conflictColumns = [], upsertColumns = []\<rparr>"

text \<open>
  The pieces insert pushes to \<open>sql\<close> after the loop, before the RETURNING clause.
\<close>

definition insert_pieces ::
  "(string \<Rightarrow> string) \<Rightarrow> string \<Rightarrow> ConflictAction \<Rightarrow> insert_state \<Rightarrow> string list" where
  "insert_pieces escapeIdentifier tableName ca st =
     [''INSERT INTO '' @ escapeIdentifier tableName @ '' ('',
      join '', '' (columns st),
      '') VALUES ('',
      join '', '' (columnValues st)]
     @ (if ca = ConflictAction_Ignore \<or> ca = ConflictAction_Update then
          ['') ON CONFLICT ('', join '','' (conflictColumns st)]
          @ (case ca of
               ConflictAction_Ignore \<Rightarrow> ['') DO NOTHING'']
             | ConflictAction_Update \<Rightarrow> ['') DO UPDATE SET '', join '', '' (upsertColumns st)]
             | ConflictAction_None \<Rightarrow> [])
        else ['')''])"

text \<open>
  insert: the SQL text and the parameter list it hands to \<open>this.query\<close>, or the error
  thrown while building them.
\<close>

definition insert_query ::
  "(string \<Rightarrow> string) \<Rightarrow> string \<Rightarrow> (string \<times> jsval) list \<Rightarrow> InsertOptions option \<Rightarrow>
   error + string \<times> jsval list" where
  "insert_query escapeIdentifier tableName vals options =
     (let ca = parse_conflictAction options
      in case insert_loop escapeIdentifier ca (options_conflictKeys options) vals
                empty_insert_state of
           Inl e \<Rightarrow> Inl e
         | Inr st \<Rightarrow>
             Inr (concat (addReturningToSQL escapeIdentifier
                            (insert_pieces escapeIdentifier tableName ca st)
                            (options_returning options)),
                  params st))"

subsection \<open>update\<close>

record UpdateOptions =
  update_returning :: "ReturningOptions list option"

text \<open>One iteration of the loop over \<open>values\<close> in update, on \<open>(params, columnValues)\<close>.\<close>

definition update_column ::
  "(string \<Rightarrow> string) \<Rightarrow> string \<times> jsval \<Rightarrow> jsval list \<times> string list \<Rightarrow>
   error + jsval list \<times> string list" where
  "update_column escapeIdentifier entry st =
     (let columnName = fst entry; v = snd entry;
          sanitizedColumnName = escapeIdentifier columnName
      in case is_raw v of
           Inl e \<Rightarrow> Inl e
         | Inr False \<Rightarrow>
             (let ps = fst st @ [v]
              in Inr (ps, snd st @ [sanitizedColumnName @ '' = $'' @ toString (length ps)]))
         | Inr True \<Rightarrow>
             Inr (fst st, snd st @ [sanitizedColumnName @ '' = '' @ raw_text v]))"

fun update_loop ::
  "(string \<Rightarrow> string) \<Rightarrow> (string \<times> jsval) list \<Rightarrow> jsval list \<times> string list \<Rightarrow>
   error + jsval list \<times> string list" where
  "update_loop escapeIdentifier [] st = Inr st"
| "update_loop escapeIdentifier (entry # rest) st =
     (case update_column escapeIdentifier entry st of
        Inl e \<Rightarrow> Inl e
      | Inr st' \<Rightarrow> update_loop escapeIdentifier rest st')"

subsection \<open>addWhereToSQL\<close>

text \<open>
  The guard \<open>typeof w === "object" && w.value != null && w.operator != null\<close>, with the
  short-circuit evaluation of \<open>&&\<close>.
\<close>

definition is_condition :: "jsval \<Rightarrow> error + bool" where
  "is_condition w =
     (if typeof w = ''object'' then
        (case get_prop w ''value'' of
           Inl e \<Rightarrow> Inl e
         | Inr v \<Rightarrow>
             if not_nullish v then
               (case get_prop w ''operator'' of
                  Inl e \<Rightarrow> Inl e
                | Inr opr \<Rightarrow> Inr (not_nullish opr))
             else Inr False)
      else Inr False)"

text \<open>A property read in a branch whose guard has read a property of the same value.\<close>

fun field :: "jsval \<Rightarrow> string \<Rightarrow> jsval" where
  "field (JObj fs) name = (case map_of fs name of None \<Rightarrow> JUndefined | Some v \<Rightarrow> v)"
| "field v name = JUndefined"

text \<open>
  One iteration of the loop over \<open>where\<close>, on \<open>(params, conditions)\<close>. The \<open>switch\<close>
  has no default: an operator that is no member of the enum binds the value and pushes no
  condition.
\<close>

definition where_item ::
  "(string \<Rightarrow> string) \<Rightarrow> string \<times> jsval \<Rightarrow> jsval list \<times> string list \<Rightarrow>
   error + jsval list \<times> string list" where
  "where_item escapeIdentifier entry st =
     (let whereItem = fst entry; w = snd entry;
          sanitizedColumnName = escapeIdentifier whereItem
      in case is_condition w of
           Inl e \<Rightarrow> Inl e
         | Inr True \<Rightarrow>
             (let ps = fst st @ [field w ''value'']
              in case switch_operator (field w ''operator'') of
                   Some Equal \<Rightarrow>
                     Inr (ps, snd st @ [sanitizedColumnName @ '' = $'' @ toString (length ps)])
                 | Some NotEqual \<Rightarrow>
                     Inr (ps, snd st @ [sanitizedColumnName @ '' <> $'' @ toString (length ps)])
                 | Some Less \<Rightarrow>
                     Inr (ps, snd st @ [sanitizedColumnName @ '' < $'' @ toString (length ps)])
                 | Some LessOrEqual \<Rightarrow>
                     Inr (ps, snd st @ [sanitizedColumnName @ '' <= $'' @ toString (length ps)])
                 | Some Greater \<Rightarrow>
                     Inr (ps, snd st @ [sanitizedColumnName @ '' > $'' @ toString (length ps)])
                 | Some GreaterOrEqual \<Rightarrow>
                     Inr (ps, snd st @ [sanitizedColumnName @ '' >= $'' @ toString (length ps)])
                 | Some Between \<Rightarrow>
                     (let ps2 = ps @ [field w ''betweenUpperValue'']
                      in Inr (ps2, snd st @
                                [sanitizedColumnName @ '' BETWEEN $'' @ toString (length ps2 - 1)
                                 @ '' AND $'' @ toString (length ps2)]))
                 | None \<Rightarrow> Inr (ps, snd st))
         | Inr False \<Rightarrow>
             (let ps = fst st @ [w]
              in Inr (ps, snd st @ [sanitizedColumnName @ '' = $'' @ toString (length ps)])))"

fun where_loop ::
  "(string \<Rightarrow> string) \<Rightarrow> (string \<times> jsval) list \<Rightarrow> jsval list \<times> string list \<Rightarrow>
   error + jsval list \<times> string list" where
  "where_loop escapeIdentifier [] st = Inr st"
| "where_loop escapeIdentifier (entry # rest) st =
     (case where_item escapeIdentifier entry st of
        Inl e \<Rightarrow> Inl e
      | Inr st' \<Rightarrow> where_loop escapeIdentifier rest st')"

text \<open>
  addWhereToSQL on \<open>(sql, params)\<close>. \<open>if (where)\<close> holds for every object, the empty one
  too; the clause is absent when the argument is \<open>undefined\<close>.
\<close>

definition addWhereToSQL ::
  "(string \<Rightarrow> string) \<Rightarrow> string list \<Rightarrow> jsval list \<Rightarrow> (string \<times> jsval) list option \<Rightarrow>
   error + string list \<times> jsval list" where
  "addWhereToSQL escapeIdentifier sql ps whereClause =
     (case whereClause of
        None \<Rightarrow> Inr (sql, ps)
      | Some entries \<Rightarrow>
          (case where_loop escapeIdentifier entries (ps, []) of
             Inl e \<Rightarrow> Inl e
           | Inr st \<Rightarrow> Inr (sql @ ['' WHERE '', join '', '' (snd st)], fst st)))"

definition update_options_returning :: "UpdateOptions option \<Rightarrow> ReturningOptions list option" where
  "update_options_returning options =
     (case options of None \<Rightarrow> None | Some opts \<Rightarrow> update_returning opts)"

text \<open>update: the SQL text and the parameter list handed to \<open>this.query\<close>.\<close>

definition update_query ::
  "(string \<Rightarrow> string) \<Rightarrow> string \<Rightarrow> (string \<times> jsval) list \<Rightarrow>
   (string \<times> jsval) list option \<Rightarrow> UpdateOptions option \<Rightarrow> error + string \<times> jsval list" where
  "update_query escapeIdentifier tableName vals whereClause options =
     (case update_loop escapeIdentifier vals ([], []) of
        Inl e \<Rightarrow> Inl e
      | Inr st \<Rightarrow>
          (case addWhereToSQL escapeIdentifier
                  [''UPDATE '' @ escapeIdentifier tableName @ '' SET '', join '', '' (snd st)]
                  (fst st) whereClause of
             Inl e \<Rightarrow> Inl e
           | Inr (sql, ps) \<Rightarrow>
               Inr (concat (addReturningToSQL escapeIdentifier sql
                              (update_options_returning options)), ps)))"

text \<open>delete: DeleteOptions has the one field of UpdateOptions.\<close>

definition delete_query ::
  "(string \<Rightarrow> string) \<Rightarrow> string \<Rightarrow> (string \<times> jsval) list option \<Rightarrow>
   UpdateOptions option \<Rightarrow> error + string \<times> jsval list" where
  "delete_query escapeIdentifier tableName whereClause options =
     (case addWhereToSQL escapeIdentifier
             [''DELETE FROM '' @ escapeIdentifier tableName] [] whereClause of
        Inl e \<Rightarrow> Inl e
      | Inr (sql, ps) \<Rightarrow>
          Inr (concat (addReturningToSQL escapeIdentifier sql
                         (update_options_returning options)), ps))"

text \<open>
  The identifier escaping the scenarios of the specification assume: the argument between
  double quotes.
\<close>

definition quote_identifier :: "string \<Rightarrow> string" where
  \<open>quote_identifier s = ''"'' @ s @ ''"''\<close>

subsection \<open>withTx\<close>

text \<open>
  The client is a state \<open>'s\<close> and a function \<open>query\<close> that runs one statement on it and
  either throws or returns; the callback runs on the same state. Every \<open>await\<close> of the
  source is one step of the state.
\<close>

definition withTx ::
  "(string \<Rightarrow> 's \<Rightarrow> ('e + 'q) \<times> 's) \<Rightarrow> ('s \<Rightarrow> ('e + 'r) \<times> 's) \<Rightarrow> 's \<Rightarrow> ('e + 'r) \<times> 's" where
  "withTx query cb s =
     (case query ''BEGIN'' s of
        (Inl err, s1) \<Rightarrow> (Inl err, s1)
      | (Inr q, s1) \<Rightarrow>
          (case cb s1 of
             (Inl err, s2) \<Rightarrow>
               (case query ''ROLLBACK'' s2 of (r, s3) \<Rightarrow> (Inl err, s3))
           | (Inr res, s2) \<Rightarrow>
               (case query ''COMMIT'' s2 of
                  (Inl err, s3) \<Rightarrow>
                    (case query ''ROLLBACK'' s3 of (r, s4) \<Rightarrow> (Inl err, s4))
                | (Inr q', s3) \<Rightarrow> (Inr res, s3))))"

text \<open>
  A client for the scenarios: its state is the list of the statements issued so far, and
  it throws on the statements of \<open>failing\<close>.
\<close>

definition logging_query :: "string list \<Rightarrow> string \<Rightarrow> string list \<Rightarrow> (string + unit) \<times> string list" where
  "logging_query failing sql log =
     (if sql \<in> set failing then (Inl (sql @ '' failed''), log @ [sql]) else (Inr (), log @ [sql]))"

text \<open>Two units of work for the scenarios: each issues one statement, then returns or throws.\<close>

definition completing_work :: "string list \<Rightarrow> (string + nat) \<times> string list" where
  "completing_work log = (Inr 7, log @ [''INSERT''])"

definition failing_work :: "string list \<Rightarrow> (string + nat) \<times> string list" where
  "failing_work log = (Inl ''work failed'', log @ [''INSERT''])"

section \<open>The value decoders\<close>

subsection \<open>The built-in functions parseInt and BigInt\<close>

text \<open>
  Strings are lists of code units below 256. The white space that \<open>parseInt\<close> and
  \<open>BigInt\<close> strip: TAB, LF, VT, FF, CR, SP and NBSP.
\<close>

definition is_white :: "char \<Rightarrow> bool" where
  "is_white c = (of_char c \<in> set [9, 10, 11, 12, 13, 32, 160 :: nat])"

definition is_digit :: "char \<Rightarrow> bool" where
  "is_digit c = (48 \<le> (of_char c :: nat) \<and> (of_char c :: nat) \<le> 57)"

text \<open>The value of a digit in a radix up to 16, when the character is one.\<close>

definition radix_digit :: "nat \<Rightarrow> char \<Rightarrow> nat option" where
  "radix_digit r c =
     (let k = (of_char c :: nat);
          d = (if 48 \<le> k \<and> k \<le> 57 then Some (k - 48)
               else if 97 \<le> k \<and> k \<le> 102 then Some (k - 87)
               else if 65 \<le> k \<and> k \<le> 70 then Some (k - 55)
               else None)
      in case d of None \<Rightarrow> None | Some v \<Rightarrow> if v < r then Some v else None)"

definition digits_value :: "nat \<Rightarrow> string \<Rightarrow> nat" where
  "digits_value r ds =
     foldl (\<lambda>acc c. r * acc + (case radix_digit r c of None \<Rightarrow> 0 | Some d \<Rightarrow> d)) 0 ds"

text \<open>The number of binary digits of a natural number.\<close>

fun bits :: "nat \<Rightarrow> nat" where
  "bits n = (if n = 0 then 0 else Suc (bits (n div 2)))"

declare bits.simps [simp del]

text \<open>
  The double nearest to a natural number, ties to even, as a natural number: exact up to
  53 binary digits, and otherwise the leading 53 digits rounded. (Where a decimal text has
  more than 20 significant digits an implementation may round from the first 20 only; the
  model takes the exact value.)
\<close>

definition round_double :: "nat \<Rightarrow> nat" where
  "round_double n =
     (if bits n \<le> 53 then n
      else
        (let e = bits n - 53;
             q = n div 2 ^ e;
             r = n mod 2 ^ e;
             half = 2 ^ (e - 1)
         in (if half < r \<or> (r = half \<and> odd q) then q + 1 else q) * 2 ^ e))"

text \<open>The Number for a sign and a magnitude: infinite from \<open>2 ^ 1024\<close> on.\<close>

definition to_number :: "bool \<Rightarrow> nat \<Rightarrow> number" where
  "to_number neg n =
     (let r = round_double n
      in if 2 ^ 1024 \<le> r then (if neg then NegInf else PosInf)
         else if neg then (if r = 0 then NegZero else Fin (- int r))
         else Fin (int r))"

text \<open>
  \<open>parseInt(s, 10)\<close>: leading white space is skipped, one sign is read, then the longest
  run of decimal digits; NaN when there is no digit. It never throws.
\<close>

definition parseInt :: "string \<Rightarrow> number" where
  "parseInt s =
     (let t = dropWhile is_white s;
          neg = (t \<noteq> [] \<and> hd t = CHR ''-'');
          u = (if t \<noteq> [] \<and> (hd t = CHR ''-'' \<or> hd t = CHR ''+'') then tl t else t);
          ds = takeWhile is_digit u
      in if ds = [] then NaN else to_number neg (digits_value 10 ds))"

text \<open>The comparison \<open>a <= b\<close> of two numbers: false when one is NaN.\<close>

fun rank :: "number \<Rightarrow> (int \<times> int) option" where
  "rank NaN = None"
| "rank NegInf = Some (-1, 0)"
| "rank (Fin i) = Some (0, i)"
| "rank NegZero = Some (0, 0)"
| "rank PosInf = Some (1, 0)"

definition num_le :: "number \<Rightarrow> number \<Rightarrow> bool" where
  "num_le a b =
     (case (rank a, rank b) of
        (Some (x, i), Some (y, j)) \<Rightarrow> x < y \<or> (x = y \<and> i \<le> j)
      | _ \<Rightarrow> False)"

definition MAX_SAFE_INTEGER :: number where
  "MAX_SAFE_INTEGER = Fin 9007199254740991"

definition MIN_SAFE_INTEGER :: number where
  "MIN_SAFE_INTEGER = Fin (- 9007199254740991)"

text \<open>
  \<open>BigInt(s)\<close> on a string: white space is trimmed at both ends; the empty text is
  \<open>0n\<close>; a decimal literal may carry one sign; a hexadecimal, octal or binary literal has
  its prefix and no sign; anything else is a SyntaxError.
\<close>

definition trim :: "string \<Rightarrow> string" where
  "trim s = rev (dropWhile is_white (rev (dropWhile is_white s)))"

definition all_digits :: "nat \<Rightarrow> string \<Rightarrow> bool" where
  "all_digits r ds = (ds \<noteq> [] \<and> list_all (\<lambda>c. radix_digit r c \<noteq> None) ds)"

definition BigInt :: "string \<Rightarrow> error + jsval" where
  "BigInt s =
     (let t = trim s
      in if t = [] then Inr (JBigInt 0)
         else if take 2 t \<in> set [''0x'', ''0X''] then
           (if all_digits 16 (drop 2 t) then Inr (JBigInt (int (digits_value 16 (drop 2 t))))
            else Inl SyntaxError)
         else if take 2 t \<in> set [''0o'', ''0O''] then
           (if all_digits 8 (drop 2 t) then Inr (JBigInt (int (digits_value 8 (drop 2 t))))
            else Inl SyntaxError)
         else if take 2 t \<in> set [''0b'', ''0B''] then
           (if all_digits 2 (drop 2 t) then Inr (JBigInt (int (digits_value 2 (drop 2 t))))
            else Inl SyntaxError)
         else if hd t = CHR ''-'' then
           (if all_digits 10 (tl t) then Inr (JBigInt (- int (digits_value 10 (tl t))))
            else Inl SyntaxError)
         else if hd t = CHR ''+'' then
           (if all_digits 10 (tl t) then Inr (JBigInt (int (digits_value 10 (tl t))))
            else Inl SyntaxError)
         else
           (if all_digits 10 t then Inr (JBigInt (int (digits_value 10 t)))
            else Inl SyntaxError))"

subsection \<open>The libraries the decoders call\<close>

text \<open>
  The functions of other packages that the decoders call, as parameters: \<open>moment.utc\<close>,
  \<open>parseFloat\<close>, the BigNumber constructor, the byte decoder of postgres-bytea (which is
  registered as it is and so receives the wire value itself, \<open>null\<close> included), and the
  splitting of an array literal into its entries, \<open>null\<close> for an unquoted NULL.
\<close>

record externals =
  moment_utc :: "string \<Rightarrow> error + jsval"
  parseFloat :: "string \<Rightarrow> error + jsval"
  BigNumber :: "string \<Rightarrow> error + jsval"
  parseByteA :: "string option \<Rightarrow> error + jsval"
  array_entries :: "string \<Rightarrow> error + string option list"

subsection \<open>Scalar decoders\<close>

definition parseDbDate :: "externals \<Rightarrow> string option \<Rightarrow> error + jsval" where
  "parseDbDate ext val = (case val of Some s \<Rightarrow> moment_utc ext s | None \<Rightarrow> Inr JNull)"

definition parseDbInteger :: "string option \<Rightarrow> error + jsval" where
  "parseDbInteger val = (case val of None \<Rightarrow> Inr JNull | Some s \<Rightarrow> Inr (JNum (parseInt s)))"

text \<open>
  Nothing in the \<open>try\<close> block throws (\<open>parseInt\<close> and the comparisons do not), so the
  \<open>catch\<close> is never entered; \<open>BigInt(val)\<close> is outside of it and its error propagates.
\<close>

definition parseDbBigInteger :: "string option \<Rightarrow> error + jsval" where
  "parseDbBigInteger val =
     (case val of
        None \<Rightarrow> Inr JNull
      | Some s \<Rightarrow>
          (let v = parseInt s
           in if num_le MIN_SAFE_INTEGER v \<and> num_le v MAX_SAFE_INTEGER then Inr (JNum v)
              else BigInt s))"

definition parseDbFloat :: "externals \<Rightarrow> string option \<Rightarrow> error + jsval" where
  "parseDbFloat ext val = (case val of None \<Rightarrow> Inr JNull | Some s \<Rightarrow> parseFloat ext s)"

definition parseDbBigFloat :: "externals \<Rightarrow> string option \<Rightarrow> error + jsval" where
  "parseDbBigFloat ext val = (case val of None \<Rightarrow> Inr JNull | Some s \<Rightarrow> BigNumber ext s)"

definition parseDbBool :: "string option \<Rightarrow> error + jsval" where
  "parseDbBool val =
     (case val of
        None \<Rightarrow> Inr JNull
      | Some s \<Rightarrow>
          Inr (JBool (s = ''TRUE'' \<or> s = ''t'' \<or> s = ''true'' \<or> s = ''y'' \<or> s = ''yes''
                      \<or> s = ''on'' \<or> s = ''1'')))"

text \<open>The functions passed to \<open>createArrayParser\<close> as \<open>transform\<close>.\<close>

datatype transform =
    T_parseDbDate | T_parseDbInteger | T_parseDbBigInteger | T_parseDbFloat
  | T_parseDbBigFloat | T_parseDbBool | T_parseByteA

fun apply_transform :: "externals \<Rightarrow> transform \<Rightarrow> string option \<Rightarrow> error + jsval" where
  "apply_transform ext T_parseDbDate val = parseDbDate ext val"
| "apply_transform ext T_parseDbInteger val = parseDbInteger val"
| "apply_transform ext T_parseDbBigInteger val = parseDbBigInteger val"
| "apply_transform ext T_parseDbFloat val = parseDbFloat ext val"
| "apply_transform ext T_parseDbBigFloat val = parseDbBigFloat ext val"
| "apply_transform ext T_parseDbBool val = parseDbBool val"
| "apply_transform ext T_parseByteA val = parseByteA ext val"

subsection \<open>Array decoders\<close>

text \<open>
  The object \<open>createArrayParser\<close> returns is a closure over \<open>value\<close> and \<open>transform\<close>;
  nothing is parsed until its \<open>parse\<close> is called.
\<close>

record IArrayParser =
  captured_value :: string
  captured_transform :: transform

definition createArrayParser :: "string \<Rightarrow> transform \<Rightarrow> IArrayParser" where
  "createArrayParser v t = \<lparr>captured_value = v, captured_transform = t\<rparr>"

text \<open>The callback that \<open>parse\<close> hands to the array library, for one entry.\<close>

definition entry_callback :: "externals \<Rightarrow> transform \<Rightarrow> string option \<Rightarrow> error + jsval" where
  "entry_callback ext t entry =
     (case entry of None \<Rightarrow> Inr JNull | Some s \<Rightarrow> apply_transform ext t (Some s))"

text \<open>
  The array library applies the callback to the entries in order and collects the results;
  the first error ends it. (A library that keeps a \<open>null\<close> entry to itself, without
  calling the callback on it, collects the same results: the callback returns \<open>null\<close>
  there.)
\<close>

fun map_entries :: "('a \<Rightarrow> error + 'b) \<Rightarrow> 'a list \<Rightarrow> error + 'b list" where
  "map_entries f [] = Inr []"
| "map_entries f (x # xs) =
     (case f x of
        Inl e \<Rightarrow> Inl e
      | Inr y \<Rightarrow> (case map_entries f xs of Inl e \<Rightarrow> Inl e | Inr ys \<Rightarrow> Inr (y # ys)))"

definition parse :: "externals \<Rightarrow> IArrayParser \<Rightarrow> error + jsval list" where
  "parse ext p =
     (case array_entries ext (captured_value p) of
        Inl e \<Rightarrow> Inl e
      | Inr entries \<Rightarrow> map_entries (entry_callback ext (captured_transform p)) entries)"

text \<open>
  What a registered decoder returns: a value, or the lazy parser of an array. The seven
  array decoders differ in the transform only.
\<close>

datatype decoded = Value jsval | ArrayParser IArrayParser

definition parseDbDateArray :: "string option \<Rightarrow> decoded" where
  "parseDbDateArray val =
     (case val of None \<Rightarrow> Value JNull | Some s \<Rightarrow> ArrayParser (createArrayParser s T_parseDbDate))"

definition parseDbIntegerArray :: "string option \<Rightarrow> decoded" where
  "parseDbIntegerArray val =
     (case val of None \<Rightarrow> Value JNull | Some s \<Rightarrow> ArrayParser (createArrayParser s T_parseDbInteger))"

definition parseDbBigIntegerArray :: "string option \<Rightarrow> decoded" where
  "parseDbBigIntegerArray val =
     (case val of None \<Rightarrow> Value JNull
      | Some s \<Rightarrow> ArrayParser (createArrayParser s T_parseDbBigInteger))"

definition parseDbFloatArray :: "string option \<Rightarrow> decoded" where
  "parseDbFloatArray val =
     (case val of None \<Rightarrow> Value JNull | Some s \<Rightarrow> ArrayParser (createArrayParser s T_parseDbFloat))"

definition parseDbBigFloatArray :: "string option \<Rightarrow> decoded" where
  "parseDbBigFloatArray val =
     (case val of None \<Rightarrow> Value JNull
      | Some s \<Rightarrow> ArrayParser (createArrayParser s T_parseDbBigFloat))"

definition parseDbBoolArray :: "string option \<Rightarrow> decoded" where
  "parseDbBoolArray val =
     (case val of None \<Rightarrow> Value JNull | Some s \<Rightarrow> ArrayParser (createArrayParser s T_parseDbBool))"

definition parseByteAArray :: "string option \<Rightarrow> decoded" where
  "parseByteAArray val =
     (case val of None \<Rightarrow> Value JNull | Some s \<Rightarrow> ArrayParser (createArrayParser s T_parseByteA))"

subsection \<open>Registration\<close>

text \<open>The functions that registerParsers hands to \<open>pg.types.setTypeParser\<close>.\<close>

datatype parser_fn =
    Fn_parseDbDate | Fn_parseDbDateArray
  | Fn_parseDbInteger | Fn_parseDbIntegerArray
  | Fn_parseDbBigInteger | Fn_parseDbBigIntegerArray
  | Fn_parseDbFloat | Fn_parseDbFloatArray
  | Fn_parseDbBigFloat | Fn_parseDbBigFloatArray
  | Fn_parseDbBool | Fn_parseDbBoolArray
  | Fn_parseByteA | Fn_parseByteAArray

definition lift_value :: "error + jsval \<Rightarrow> error + decoded" where
  "lift_value r = (case r of Inl e \<Rightarrow> Inl e | Inr v \<Rightarrow> Inr (Value v))"

fun call_parser :: "externals \<Rightarrow> parser_fn \<Rightarrow> string option \<Rightarrow> error + decoded" where
  "call_parser ext Fn_parseDbDate val = lift_value (parseDbDate ext val)"
| "call_parser ext Fn_parseDbDateArray val = Inr (parseDbDateArray val)"
| "call_parser ext Fn_parseDbInteger val = lift_value (parseDbInteger val)"
| "call_parser ext Fn_parseDbIntegerArray val = Inr (parseDbIntegerArray val)"
| "call_parser ext Fn_parseDbBigInteger val = lift_value (parseDbBigInteger val)"
| "call_parser ext Fn_parseDbBigIntegerArray val = Inr (parseDbBigIntegerArray val)"
| "call_parser ext Fn_parseDbFloat val = lift_value (parseDbFloat ext val)"
| "call_parser ext Fn_parseDbFloatArray val = Inr (parseDbFloatArray val)"
| "call_parser ext Fn_parseDbBigFloat val = lift_value (parseDbBigFloat ext val)"
| "call_parser ext Fn_parseDbBigFloatArray val = Inr (parseDbBigFloatArray val)"
| "call_parser ext Fn_parseDbBool val = lift_value (parseDbBool val)"
| "call_parser ext Fn_parseDbBoolArray val = Inr (parseDbBoolArray val)"
| "call_parser ext Fn_parseByteA val = lift_value (parseByteA ext val)"
| "call_parser ext Fn_parseByteAArray val = Inr (parseByteAArray val)"

text \<open>
  The type registry of the pg package: one table of parsers by type identifier for each of
  the formats \<open>text\<close> and \<open>binary\<close>. \<open>setTypeParser(oid, fn)\<close> is
  \<open>setTypeParser(oid, "text", fn)\<close>; a later registration overwrites.
\<close>

record registry =
  text_parsers :: "nat \<Rightarrow> parser_fn option"
  binary_parsers :: "nat \<Rightarrow> parser_fn option"

definition setTypeParser :: "nat \<Rightarrow> string \<Rightarrow> parser_fn \<Rightarrow> registry \<Rightarrow> registry" where
  "setTypeParser oid format fn r =
     (if format = ''binary'' then r\<lparr>binary_parsers := (binary_parsers r)(oid \<mapsto> fn)\<rparr>
      else r\<lparr>text_parsers := (text_parsers r)(oid \<mapsto> fn)\<rparr>)"

definition getTypeParser :: "registry \<Rightarrow> nat \<Rightarrow> string \<Rightarrow> parser_fn option" where
  "getTypeParser r oid format =
     (if format = ''binary'' then binary_parsers r oid else text_parsers r oid)"

text \<open>The type identifiers of \<open>pg.types.builtins\<close> that registerParsers names.\<close>

definition BOOL :: nat where "BOOL = 16"
definition BYTEA :: nat where "BYTEA = 17"
definition INT8 :: nat where "INT8 = 20"
definition INT2 :: nat where "INT2 = 21"
definition INT4 :: nat where "INT4 = 23"
definition FLOAT4 :: nat where "FLOAT4 = 700"
definition FLOAT8 :: nat where "FLOAT8 = 701"
definition MONEY :: nat where "MONEY = 790"
definition DATE :: nat where "DATE = 1082"
definition TIME :: nat where "TIME = 1083"
definition TIMESTAMP :: nat where "TIMESTAMP = 1114"
definition TIMESTAMPTZ :: nat where "TIMESTAMPTZ = 1184"
definition TIMETZ :: nat where "TIMETZ = 1266"
definition NUMERIC :: nat where "NUMERIC = 1700"

text \<open>The state registerParsers works on: its flag and the registry.\<close>

record module_state =
  initialized :: bool
  types :: registry

definition registrations :: "(nat \<times> string \<times> parser_fn) list" where
  "registrations =
     [(DATE, ''text'', Fn_parseDbDate),
      (TIME, ''text'', Fn_parseDbDate),
      (TIMETZ, ''text'', Fn_parseDbDate),
      (TIMESTAMP, ''text'', Fn_parseDbDate),
      (TIMESTAMPTZ, ''text'', Fn_parseDbDate),
      (1182, ''text'', Fn_parseDbDateArray),
      (1183, ''text'', Fn_parseDbDateArray),
      (1270, ''text'', Fn_parseDbDateArray),
      (1115, ''text'', Fn_parseDbDateArray),
      (1185, ''text'', Fn_parseDbDateArray),
      (INT2, ''text'', Fn_parseDbInteger),
      (INT4, ''text'', Fn_parseDbInteger),
      (INT8, ''text'', Fn_parseDbBigInteger),
      (1005, ''text'', Fn_parseDbIntegerArray),
      (1007, ''text'', Fn_parseDbIntegerArray),
      (1016, ''text'', Fn_parseDbBigIntegerArray),
      (FLOAT4, ''text'', Fn_parseDbFloat),
      (FLOAT8, ''text'', Fn_parseDbFloat),
      (NUMERIC, ''text'', Fn_parseDbBigFloat),
      (MONEY, ''text'', Fn_parseDbBigFloat),
      (1021, ''text'', Fn_parseDbFloatArray),
      (1022, ''text'', Fn_parseDbBigFloatArray),
      (1231, ''text'', Fn_parseDbBigFloatArray),
      (791, ''text'', Fn_parseDbBigFloatArray),
      (BOOL, ''text'', Fn_parseDbBool),
      (1000, ''text'', Fn_parseDbBoolArray),
      (BYTEA, ''binary'', Fn_parseByteA),
      (1001, ''text'', Fn_parseByteAArray)]"

definition registerParsers :: "module_state \<Rightarrow> module_state" where
  "registerParsers s =
     (if \<not> initialized s then
        \<lparr>initialized = True,
         types = foldl (\<lambda>r (oid, format, fn). setTypeParser oid format fn r) (types s) registrations\<rparr>
      else s)"

text \<open>The module as it is loaded: the flag is false, and no parser of this module is registered.\<close>

definition initial_state :: module_state where
  "initial_state =
     \<lparr>initialized = False,
      types = \<lparr>text_parsers = (\<lambda>oid. None), binary_parsers = (\<lambda>oid. None)\<rparr>\<rparr>"

text \<open>Libraries whose every function throws when it is called.\<close>

definition throwing_externals :: externals where
  "throwing_externals =
     \<lparr>moment_utc = (\<lambda>s. Inl TypeError),
      parseFloat = (\<lambda>s. Inl TypeError),
      BigNumber = (\<lambda>s. Inl TypeError),
      parseByteA = (\<lambda>v. Inl TypeError),
      array_entries = (\<lambda>s. Inl TypeError)\<rparr>"

section \<open>The outputs the specification describes\<close>

text \<open>The raw-fragment marker of the specification: an object whose \<open>raw\<close> field holds a string.\<close>

fun is_marker :: "jsval \<Rightarrow> bool" where
  "is_marker (JObj fs) = (case map_of fs ''raw'' of Some (JStr s) \<Rightarrow> True | _ \<Rightarrow> False)"
| "is_marker v = False"

text \<open>The values that are no markers, in iteration order.\<close>

definition bound_values :: "(string \<times> jsval) list \<Rightarrow> jsval list" where
  "bound_values es = map snd (filter (\<lambda>e. \<not> is_marker (snd e)) es)"

text \<open>The VALUES entries the specification describes, for a parameter list that holds \<open>n\<close>
  values already: the raw text of a marker, and for any other value the placeholder whose
  number is the length of the parameter list after the value is appended.\<close>

fun value_texts :: "nat \<Rightarrow> (string \<times> jsval) list \<Rightarrow> string list" where
  "value_texts n [] = []"
| "value_texts n (e # es) =
     (if is_marker (snd e) then raw_text (snd e) # value_texts n es
      else (''$'' @ toString (Suc n)) # value_texts (Suc n) es)"

text \<open>The escaped names of the columns that are conflict keys, in iteration order.\<close>

definition conflict_targets :: "(string \<Rightarrow> string) \<Rightarrow> string list \<Rightarrow> (string \<times> jsval) list \<Rightarrow> string list" where
  "conflict_targets esc ks es = map esc (filter (\<lambda>c. c \<in> set ks) (map fst es))"

text \<open>The upsert assignments the specification describes: one for each column that is no
  conflict key, made of the escaped name and the VALUES entry of that column.\<close>

definition assignments :: "(string \<Rightarrow> string) \<Rightarrow> string list \<Rightarrow> nat \<Rightarrow> (string \<times> jsval) list \<Rightarrow> string list" where
  "assignments esc ks n es =
     map (\<lambda>ct. esc (fst ct) @ '' = '' @ snd ct)
       (filter (\<lambda>ct. fst ct \<notin> set ks) (zip (map fst es) (value_texts n es)))"

text \<open>The SET assignments of update the specification describes, numbered as \<open>value_texts\<close> is.\<close>

fun assignment_texts :: "(string \<Rightarrow> string) \<Rightarrow> nat \<Rightarrow> (string \<times> jsval) list \<Rightarrow> string list" where
  "assignment_texts esc n [] = []"
| "assignment_texts esc n (e # es) =
     (if is_marker (snd e) then (esc (fst e) @ '' = '' @ raw_text (snd e)) # assignment_texts esc n es
      else (esc (fst e) @ '' = $'' @ toString (Suc n)) # assignment_texts esc (Suc n) es)"

text \<open>The text that each operator puts between the column and the placeholder number.\<close>

fun operator_text :: "WhereConditionOperator \<Rightarrow> string" where
  "operator_text Equal = '' = $''"
| "operator_text NotEqual = '' <> $''"
| "operator_text Less = '' < $''"
| "operator_text LessOrEqual = '' <= $''"
| "operator_text Greater = '' > $''"
| "operator_text GreaterOrEqual = '' >= $''"
| "operator_text Between = '' BETWEEN $''"

text \<open>The text of the RETURNING clause.\<close>

definition returning_clause :: "(string \<Rightarrow> string) \<Rightarrow> ReturningOptions list option \<Rightarrow> string" where
  "returning_clause esc ret =
     (case ret of
        None \<Rightarrow> []
      | Some items \<Rightarrow> '' RETURNING '' @ join '', '' (map (returning_expr esc) items))"

section \<open>Properties of the statement builder\<close>

subsection \<open>Classification of a column value\<close>

text \<open>
  On every value but \<open>null\<close> the test of insert and update does not throw and holds
  exactly on the markers.
\<close>

lemma is_raw_not_null: "v \<noteq> JNull \<Longrightarrow> is_raw v = Inr (is_marker v)"
  by (cases v) (auto simp: is_raw_def split: option.splits jsval.splits)

text \<open>
  C5: a column value of insert and update is a raw fragment exactly when it is an object
  whose \<open>raw\<close> field holds a string, every other value, \<open>null\<close> too, is bound, and
  the classification never fails. The code evaluated at \<open>null\<close>: \<open>typeof null\<close> is
  \<open>'object'\<close>, so the test goes on to read \<open>null.raw\<close>, which throws; insert and
  update of a row with a \<open>null\<close> column throw a TypeError and build no statement.
\<close>

theorem classify_null_throws:
  "is_raw JNull = Inl TypeError
   \<and> insert_query quote_identifier ''t'' [(''a'', JNull)] None = Inl TypeError
   \<and> update_query quote_identifier ''t'' [(''a'', JNull)] None None = Inl TypeError"
  by code_simp

subsection \<open>The loop of insert\<close>

lemma insert_column_result:
  assumes "snd e \<noteq> JNull" and "ca \<noteq> ConflictAction_None \<longrightarrow> keys = Some ks"
  shows "insert_column esc ca keys e st =
     Inr (st\<lparr>params := params st @ bound_values [e],
             columns := columns st @ [esc (fst e)],
             columnValues := columnValues st @ value_texts (length (params st)) [e],
             conflictColumns := conflictColumns st @
               (if ca = ConflictAction_None then [] else conflict_targets esc ks [e]),
             upsertColumns := upsertColumns st @
               (if ca = ConflictAction_Update then assignments esc ks (length (params st)) [e] else [])\<rparr>)"
  using assms
  by (cases ca)
     (auto simp: insert_column_def is_raw_not_null classify_conflict_def keys_include_def
        bound_values_def conflict_targets_def assignments_def Let_def)

lemma bound_values_Cons:
  "bound_values (e # es) = bound_values [e] @ bound_values es"
  by (simp add: bound_values_def)

lemma value_texts_Cons:
  "value_texts n (e # es) = value_texts n [e] @ value_texts (n + length (bound_values [e])) es"
  by (simp add: bound_values_def)

lemma conflict_targets_Cons:
  "conflict_targets esc ks (e # es) = conflict_targets esc ks [e] @ conflict_targets esc ks es"
  by (simp add: conflict_targets_def)

lemma assignments_Cons:
  "assignments esc ks n (e # es) =
     assignments esc ks n [e] @ assignments esc ks (n + length (bound_values [e])) es"
  by (simp add: assignments_def bound_values_def)

lemma insert_loop_result:
  assumes "\<forall>e\<in>set es. snd e \<noteq> JNull" and "ca \<noteq> ConflictAction_None \<longrightarrow> keys = Some ks"
  shows "insert_loop esc ca keys es st =
     Inr (st\<lparr>params := params st @ bound_values es,
             columns := columns st @ map (\<lambda>e. esc (fst e)) es,
             columnValues := columnValues st @ value_texts (length (params st)) es,
             conflictColumns := conflictColumns st @
               (if ca = ConflictAction_None then [] else conflict_targets esc ks es),
             upsertColumns := upsertColumns st @
               (if ca = ConflictAction_Update then assignments esc ks (length (params st)) es else [])\<rparr>)"
  using assms
proof (induction es arbitrary: st)
  case Nil
  then show ?case
    by (simp add: bound_values_def conflict_targets_def assignments_def)
next
  case (Cons e es)
  have e: "snd e \<noteq> JNull" and es: "\<forall>e\<in>set es. snd e \<noteq> JNull"
    using Cons.prems(1) by simp_all
  note step = insert_column_result [OF e Cons.prems(2), of esc st]
  note rest = Cons.IH [OF es Cons.prems(2)]
  show ?case
    unfolding insert_loop.simps step sum.case rest
    unfolding bound_values_Cons [of e es] value_texts_Cons [of _ e es]
      conflict_targets_Cons [of esc ks e es] assignments_Cons [of esc ks _ e es]
    by simp
qed

lemma concat_addReturningToSQL:
  "concat (addReturningToSQL esc sql ret) = concat sql @ returning_clause esc ret"
  by (cases ret) (simp_all add: addReturningToSQL_def returning_clause_def)

text \<open>
  The statement insert builds when no value is \<open>null\<close> and, under a conflict action,
  the conflict keys are given.
\<close>

lemma insert_query_result:
  assumes "\<forall>e\<in>set vals. snd e \<noteq> JNull"
    and "parse_conflictAction options \<noteq> ConflictAction_None \<longrightarrow> options_conflictKeys options = Some ks"
  shows "insert_query esc t vals options =
     Inr (''INSERT INTO '' @ esc t @ '' ('' @ join '', '' (map (\<lambda>e. esc (fst e)) vals)
          @ '') VALUES ('' @ join '', '' (value_texts 0 vals)
          @ (case parse_conflictAction options of
               ConflictAction_None \<Rightarrow> '')''
             | ConflictAction_Ignore \<Rightarrow>
                 '') ON CONFLICT ('' @ join '','' (conflict_targets esc ks vals) @ '') DO NOTHING''
             | ConflictAction_Update \<Rightarrow>
                 '') ON CONFLICT ('' @ join '','' (conflict_targets esc ks vals)
                 @ '') DO UPDATE SET '' @ join '', '' (assignments esc ks 0 vals))
          @ returning_clause esc (options_returning options),
          bound_values vals)"
  unfolding insert_query_def Let_def insert_loop_result [OF assms] sum.case
    concat_addReturningToSQL
  by (cases "parse_conflictAction options")
     (simp_all add: insert_pieces_def empty_insert_state_def)

text \<open>
  The entry of the VALUES list at a position: the raw text of a marker, and otherwise the
  placeholder numbered by the count of bound values up to and including that position.
\<close>

lemma length_value_texts: "length (value_texts n es) = length es"
  by (induction es arbitrary: n) simp_all

lemma value_texts_nth:
  "i < length es \<Longrightarrow>
   value_texts n es ! i =
     (if is_marker (snd (es ! i)) then raw_text (snd (es ! i))
      else ''$'' @ toString (n + length (bound_values (take (Suc i) es))))"
proof (induction es arbitrary: n i)
  case Nil
  then show ?case by simp
next
  case (Cons e es)
  show ?case
  proof (cases i)
    case 0
    then show ?thesis by (simp add: bound_values_def)
  next
    case (Suc j)
    with Cons.prems have j: "j < length es" by simp
    show ?thesis
      using Cons.IH [OF j] Suc by (simp add: bound_values_def)
  qed
qed

lemma insert_binds_in_order:
  assumes "\<forall>e\<in>set vals. snd e \<noteq> JNull"
    and "parse_conflictAction options \<noteq> ConflictAction_None \<longrightarrow> options_conflictKeys options = Some ks"
  shows "\<exists>sql. insert_query esc t vals options = Inr (sql, bound_values vals)"
  using insert_query_result [OF assms] by simp

text \<open>
  C1: for every column-to-value mapping, insert (and the SET list of update) binds each
  value that is no raw-fragment marker by appending it to the parameter list and emitting
  the placeholder numbered by the list's length, so that the placeholders are \<open>$1\<close> to
  \<open>$M\<close> in iteration order and the parameter list has the \<open>M\<close> values in that
  order. The code evaluated at the mapping \<open>{a: 1, b: null}\<close>, which has two values that
  are no markers: nothing is bound, insert and update throw a TypeError.
\<close>

theorem insert_null_not_bound:
  "insert_query quote_identifier ''t'' [(''a'', JNum (Fin 1)), (''b'', JNull)] None = Inl TypeError
   \<and> update_query quote_identifier ''t'' [(''a'', JNum (Fin 1)), (''b'', JNull)] None None
       = Inl TypeError"
  by code_simp

subsection \<open>The ON CONFLICT clause\<close>

text \<open>
  The ON CONFLICT clause of the statements that insert builds, that is, where no value is
  \<open>null\<close> and the conflict keys are given: the conflict action ignore appends
  \<open>ON CONFLICT (<conflict columns>) DO NOTHING\<close>, and the conflict action update appends
  \<open>ON CONFLICT (<conflict columns>) DO UPDATE SET\<close> with one assignment for each column
  that is no conflict key, which repeats the VALUES entry of that column: its placeholder
  with the same number. The scenario
  \<open>insert("users", {id: 1, name: "Bo"}, {conflictAction: "update", conflictKeys: ["id"]})\<close>
  builds
  \<open>INSERT INTO "users" ("id", "name") VALUES ($1, $2) ON CONFLICT ("id") DO UPDATE SET "name" = $2\<close>
  and the parameters \<open>[1, "Bo"]\<close>.
\<close>

theorem insert_on_conflict:
  assumes "\<forall>e\<in>set vals. snd e \<noteq> JNull" and "conflictKeys opts = Some ks"
  shows \<open>(conflictAction opts = Some ''ignore'' \<longrightarrow>
            insert_query esc t vals (Some opts) =
              Inr (''INSERT INTO '' @ esc t @ '' ('' @ join '', '' (map (\<lambda>e. esc (fst e)) vals)
                   @ '') VALUES ('' @ join '', '' (value_texts 0 vals)
                   @ '') ON CONFLICT ('' @ join '','' (conflict_targets esc ks vals)
                   @ '') DO NOTHING'' @ returning_clause esc (returning opts),
                   bound_values vals))
       \<and> (conflictAction opts = Some ''update'' \<longrightarrow>
            insert_query esc t vals (Some opts) =
              Inr (''INSERT INTO '' @ esc t @ '' ('' @ join '', '' (map (\<lambda>e. esc (fst e)) vals)
                   @ '') VALUES ('' @ join '', '' (value_texts 0 vals)
                   @ '') ON CONFLICT ('' @ join '','' (conflict_targets esc ks vals)
                   @ '') DO UPDATE SET '' @ join '', '' (assignments esc ks 0 vals)
                   @ returning_clause esc (returning opts),
                   bound_values vals))
       \<and> insert_query quote_identifier ''users'' [(''id'', JNum (Fin 1)), (''name'', JStr ''Bo'')]
            (Some \<lparr>conflictAction = Some ''update'', conflictKeys = Some [''id''],
                   returning = None\<rparr>) =
          Inr (''INSERT INTO "users" ("id", "name") VALUES ($1, $2) ON CONFLICT ("id") DO UPDATE SET "name" = $2'',
               [JNum (Fin 1), JStr ''Bo''])\<close>
proof -
  have keys: "parse_conflictAction (Some opts) \<noteq> ConflictAction_None \<longrightarrow>
      options_conflictKeys (Some opts) = Some ks"
    using assms(2) by (simp add: options_conflictKeys_def)
  note r = insert_query_result [OF assms(1) keys, of esc t]
  have ignore: "conflictAction opts = Some ''ignore'' \<Longrightarrow>
      parse_conflictAction (Some opts) = ConflictAction_Ignore"
    by (simp add: parse_conflictAction_def)
  have update: "conflictAction opts = Some ''update'' \<Longrightarrow>
      parse_conflictAction (Some opts) = ConflictAction_Update"
    by (simp add: parse_conflictAction_def)
  have scenario: \<open>insert_query quote_identifier ''users''
        [(''id'', JNum (Fin 1)), (''name'', JStr ''Bo'')]
        (Some \<lparr>conflictAction = Some ''update'', conflictKeys = Some [''id''],
               returning = None\<rparr>) =
      Inr (''INSERT INTO "users" ("id", "name") VALUES ($1, $2) ON CONFLICT ("id") DO UPDATE SET "name" = $2'',
           [JNum (Fin 1), JStr ''Bo''])\<close>
    by code_simp
  show ?thesis
    using r ignore update scenario by (simp add: options_returning_def)
qed

theorem insert_on_conflict_witness:
  \<open>JNum (Fin 1) \<noteq> JNull \<and> JObj [(''raw'', JStr ''NOW()'')] \<noteq> JNull
   \<and> conflictKeys \<lparr>conflictAction = Some ''update'', conflictKeys = Some [''id''],
                    returning = None\<rparr> = Some [''id'']
   \<and> insert_query quote_identifier ''t''
        [(''id'', JNum (Fin 1)), (''ts'', JObj [(''raw'', JStr ''NOW()'')])]
        (Some \<lparr>conflictAction = Some ''update'', conflictKeys = Some [''id''],
               returning = None\<rparr>) =
      Inr (''INSERT INTO "t" ("id", "ts") VALUES ($1, NOW()) ON CONFLICT ("id") DO UPDATE SET "ts" = NOW()'',
           [JNum (Fin 1)])\<close>
proof -
  let ?vals = "[(''id'', JNum (Fin 1)), (''ts'', JObj [(''raw'', JStr ''NOW()'')])]"
  let ?opts = "\<lparr>conflictAction = Some ''update'', conflictKeys = Some [''id''], returning = None\<rparr>"
  have h1: "\<forall>e\<in>set ?vals. snd e \<noteq> JNull" by simp
  have h2: "conflictKeys ?opts = Some [''id'']" by simp
  have texts: \<open>''INSERT INTO '' @ quote_identifier ''t'' @ '' (''
        @ join '', '' (map (\<lambda>e. quote_identifier (fst e)) ?vals)
        @ '') VALUES ('' @ join '', '' (value_texts 0 ?vals)
        @ '') ON CONFLICT ('' @ join '','' (conflict_targets quote_identifier [''id''] ?vals)
        @ '') DO UPDATE SET '' @ join '', '' (assignments quote_identifier [''id''] 0 ?vals)
        @ returning_clause quote_identifier (returning ?opts) =
      ''INSERT INTO "t" ("id", "ts") VALUES ($1, NOW()) ON CONFLICT ("id") DO UPDATE SET "ts" = NOW()''\<close>
    by code_simp
  have params: "bound_values ?vals = [JNum (Fin 1)]"
    by (simp add: bound_values_def)
  from insert_on_conflict [OF h1 h2, of quote_identifier "''t''"]
  have "insert_query quote_identifier ''t'' ?vals (Some ?opts) =
      Inr (''INSERT INTO '' @ quote_identifier ''t'' @ '' (''
        @ join '', '' (map (\<lambda>e. quote_identifier (fst e)) ?vals)
        @ '') VALUES ('' @ join '', '' (value_texts 0 ?vals)
        @ '') ON CONFLICT ('' @ join '','' (conflict_targets quote_identifier [''id''] ?vals)
        @ '') DO UPDATE SET '' @ join '', '' (assignments quote_identifier [''id''] 0 ?vals)
        @ returning_clause quote_identifier (returning ?opts), bound_values ?vals)"
    by simp
  then show ?thesis
    unfolding texts params using h2 by simp
qed

text \<open>
  C2: the scenario above, and in general the conflict action ignore appends
  \<open>ON CONFLICT (<conflict columns>) DO NOTHING\<close> and the conflict action update appends
  \<open>ON CONFLICT (<conflict columns>) DO UPDATE SET\<close> with one assignment for each column
  that is no conflict key. The code evaluated at the upsert of \<open>{id: 1, name: null}\<close>
  with the conflict key \<open>id\<close>: the test for a raw fragment reads \<open>null.raw\<close> and
  throws before any clause is appended, under update and under ignore alike.
\<close>

theorem insert_on_conflict_null_throws:
  "insert_query quote_identifier ''users'' [(''id'', JNum (Fin 1)), (''name'', JNull)]
     (Some \<lparr>conflictAction = Some ''update'', conflictKeys = Some [''id''],
            returning = None\<rparr>) = Inl TypeError
   \<and> insert_query quote_identifier ''users'' [(''id'', JNum (Fin 1)), (''name'', JNull)]
     (Some \<lparr>conflictAction = Some ''ignore'', conflictKeys = Some [''id''],
            returning = None\<rparr>) = Inl TypeError"
  by code_simp

subsection \<open>The loop of update\<close>

lemma update_column_result:
  assumes "snd e \<noteq> JNull"
  shows "update_column esc e st =
     Inr (fst st @ bound_values [e], snd st @ assignment_texts esc (length (fst st)) [e])"
  using assms
  by (auto simp: update_column_def is_raw_not_null bound_values_def Let_def)

lemma assignment_texts_Cons:
  "assignment_texts esc n (e # es) =
     assignment_texts esc n [e] @ assignment_texts esc (n + length (bound_values [e])) es"
  by (simp add: bound_values_def)

lemma update_loop_result:
  assumes "\<forall>e\<in>set es. snd e \<noteq> JNull"
  shows "update_loop esc es st =
     Inr (fst st @ bound_values es, snd st @ assignment_texts esc (length (fst st)) es)"
  using assms
proof (induction es arbitrary: st)
  case Nil
  then show ?case by (simp add: bound_values_def)
next
  case (Cons e es)
  have e: "snd e \<noteq> JNull" and es: "\<forall>e\<in>set es. snd e \<noteq> JNull"
    using Cons.prems by simp_all
  show ?case
    unfolding update_loop.simps update_column_result [OF e] sum.case Cons.IH [OF es]
    unfolding bound_values_Cons [of e es] assignment_texts_Cons [of esc _ e es]
    by simp
qed

subsection \<open>The WHERE clause\<close>

lemma is_condition_object:
  "is_condition (JObj fs) =
     Inr (not_nullish (field (JObj fs) ''value'') \<and> not_nullish (field (JObj fs) ''operator''))"
  by (simp add: is_condition_def split: option.splits)

lemma is_condition_not_null: "w \<noteq> JNull \<Longrightarrow> \<exists>b. is_condition w = Inr b"
  by (cases w) (auto simp: is_condition_def split: option.splits)

lemma where_item_total:
  "snd e \<noteq> JNull \<Longrightarrow> \<exists>st'. where_item esc e st = Inr st'"
  using is_condition_not_null [of "snd e"]
  by (auto simp: where_item_def Let_def
        split: bool.splits option.splits WhereConditionOperator.splits)

lemma where_loop_total:
  "\<forall>e\<in>set es. snd e \<noteq> JNull \<Longrightarrow> \<exists>st'. where_loop esc es st = Inr st'"
proof (induction es arbitrary: st)
  case Nil
  then show ?case by simp
next
  case (Cons e es)
  then obtain st1 where "where_item esc e st = Inr st1"
    using where_item_total [of e esc st] by auto
  with Cons show ?case by simp
qed

lemma where_loop_append:
  "where_loop esc (xs @ ys) st =
     (case where_loop esc xs st of Inl e \<Rightarrow> Inl e | Inr st' \<Rightarrow> where_loop esc ys st')"
  by (induction xs arbitrary: st) (simp_all split: sum.splits)

lemma where_item_between:
  assumes "not_nullish (field (JObj fs) ''value'')"
    and "field (JObj fs) ''operator'' = JNum (Fin (operator_code Between))"
  shows "where_item esc (col, JObj fs) (ps, conds) =
     Inr (ps @ [field (JObj fs) ''value'', field (JObj fs) ''betweenUpperValue''],
          conds @ [esc col @ '' BETWEEN $'' @ toString (length ps + 1)
                   @ '' AND $'' @ toString (length ps + 2)])"
  using assms by (simp add: where_item_def is_condition_object Let_def)

text \<open>
  C3, as amended: in every WHERE clause, an entry that is a Between condition whose
  \<open>value\<close> is neither \<open>null\<close> nor \<open>undefined\<close> binds two consecutive
  parameters, its \<open>value\<close> and then its \<open>betweenUpperValue\<close>, and emits
  \<open>column BETWEEN $(n-1) AND $n\<close>, where \<open>n\<close> is the length of the parameter list
  after both are appended; the loop goes on from there. In particular
  \<open>update("t", {x: 5}, {id: {value: 10, operator: Between, betweenUpperValue: 20}})\<close>
  builds the WHERE fragment \<open>"id" BETWEEN $2 AND $3\<close> and the parameters
  \<open>[5, 10, 20]\<close>: the WHERE parameters continue the list of the SET clause.
\<close>

theorem between_binds_two:
  assumes "where_loop esc pre (ps0, []) = Inr (ps1, conds1)"
    and "not_nullish (field (JObj fs) ''value'')"
    and "field (JObj fs) ''operator'' = JNum (Fin (operator_code Between))"
  shows \<open>where_loop esc (pre @ (col, JObj fs) # post) (ps0, []) =
           where_loop esc post
             (ps1 @ [field (JObj fs) ''value'', field (JObj fs) ''betweenUpperValue''],
              conds1 @ [esc col @ '' BETWEEN $'' @ toString (length ps1 + 2 - 1)
                        @ '' AND $'' @ toString (length ps1 + 2)])
         \<and> update_query quote_identifier ''t'' [(''x'', JNum (Fin 5))]
             (Some [(''id'', JObj [(''value'', JNum (Fin 10)),
                                  (''operator'', JNum (Fin (operator_code Between))),
                                  (''betweenUpperValue'', JNum (Fin 20))])]) None =
           Inr (''UPDATE "t" SET "x" = $1 WHERE "id" BETWEEN $2 AND $3'',
                [JNum (Fin 5), JNum (Fin 10), JNum (Fin 20)])\<close>
proof -
  have scenario: \<open>update_query quote_identifier ''t'' [(''x'', JNum (Fin 5))]
      (Some [(''id'', JObj [(''value'', JNum (Fin 10)),
                           (''operator'', JNum (Fin (operator_code Between))),
                           (''betweenUpperValue'', JNum (Fin 20))])]) None =
      Inr (''UPDATE "t" SET "x" = $1 WHERE "id" BETWEEN $2 AND $3'',
           [JNum (Fin 5), JNum (Fin 10), JNum (Fin 20)])\<close>
    by code_simp
  show ?thesis
    using scenario
    by (simp add: where_loop_append assms(1) where_item_between [OF assms(2,3)])
qed

theorem between_binds_two_witness:
  \<open>where_loop quote_identifier [] ([JNum (Fin 5)], []) = Inr ([JNum (Fin 5)], [])
   \<and> not_nullish (field (JObj [(''value'', JNum (Fin 10)), (''operator'', JNum (Fin 6)),
                               (''betweenUpperValue'', JNum (Fin 20))]) ''value'')
   \<and> field (JObj [(''value'', JNum (Fin 10)), (''operator'', JNum (Fin 6)),
                  (''betweenUpperValue'', JNum (Fin 20))]) ''operator''
       = JNum (Fin (operator_code Between))
   \<and> where_loop quote_identifier
        [(''id'', JObj [(''value'', JNum (Fin 10)), (''operator'', JNum (Fin 6)),
                       (''betweenUpperValue'', JNum (Fin 20))])] ([JNum (Fin 5)], []) =
      Inr ([JNum (Fin 5), JNum (Fin 10), JNum (Fin 20)], [''"id" BETWEEN $2 AND $3''])\<close>
proof -
  let ?fs = "[(''value'', JNum (Fin 10)), (''operator'', JNum (Fin 6)),
              (''betweenUpperValue'', JNum (Fin 20))]"
  have h1: "where_loop quote_identifier [] ([JNum (Fin 5)], []) = Inr ([JNum (Fin 5)], [])"
    by simp
  have h2: "not_nullish (field (JObj ?fs) ''value'')" by simp
  have h3: "field (JObj ?fs) ''operator'' = JNum (Fin (operator_code Between))" by simp
  have "where_loop quote_identifier [(''id'', JObj ?fs)] ([JNum (Fin 5)], []) =
      where_loop quote_identifier []
        ([JNum (Fin 5)] @ [field (JObj ?fs) ''value'', field (JObj ?fs) ''betweenUpperValue''],
         [] @ [quote_identifier ''id'' @ '' BETWEEN $'' @ toString (length [JNum (Fin 5)] + 2 - 1)
               @ '' AND $'' @ toString (length [JNum (Fin 5)] + 2)])"
    using between_binds_two [OF h1 h2 h3, of "''id''" "[]"] by (simp only: append_Nil)
  also have \<open>\<dots> = Inr ([JNum (Fin 5), JNum (Fin 10), JNum (Fin 20)], [''"id" BETWEEN $2 AND $3''])\<close>
    by (simp add: quote_identifier_def toString.simps)
  finally show ?thesis
    by (intro conjI) (rule h1 h2 h3 | assumption)+
qed

text \<open>
  C3 as it is stated fails on a Between condition whose \<open>value\<close> is \<open>null\<close>: the
  guard of the dispatch rejects it, and the condition object itself is bound as the one
  parameter of an equality.
\<close>

theorem between_null_value_counterexample:
  \<open>update_query quote_identifier ''t'' [(''x'', JNum (Fin 5))]
     (Some [(''id'', JObj [(''value'', JNull),
                          (''operator'', JNum (Fin (operator_code Between))),
                          (''betweenUpperValue'', JNum (Fin 20))])]) None =
   Inr (''UPDATE "t" SET "x" = $1 WHERE "id" = $2'',
        [JNum (Fin 5),
         JObj [(''value'', JNull), (''operator'', JNum (Fin (operator_code Between))),
               (''betweenUpperValue'', JNum (Fin 20))]])\<close>
  by code_simp

lemma addWhereToSQL_result:
  assumes "where_loop esc entries (ps, []) = Inr (ps', conds)"
  shows "addWhereToSQL esc sql ps (Some entries) =
     Inr (sql @ ['' WHERE '', join '', '' conds], ps')"
  using assms by (simp add: addWhereToSQL_def)

text \<open>
  C4: for every WHERE clause with two or more entries, in update and in delete alike, the
  condition fragments that the loop emitted are joined by \<open>", "\<close>, not by
  \<open>" AND "\<close>: the clause is \<open>" WHERE "\<close> followed by the join of the conditions
  with that separator, which stands between every two of them.
\<close>

theorem where_joined_by_comma:
  assumes "update_loop esc vals ([], []) = Inr (ps0, sets)"
    and "where_loop esc entries (ps0, []) = Inr (ps1, conds1)"
    and "where_loop esc entries ([], []) = Inr (ps2, conds2)"
  shows \<open>update_query esc t vals (Some entries) options =
           Inr (''UPDATE '' @ esc t @ '' SET '' @ join '', '' sets
                @ '' WHERE '' @ join '', '' conds1
                @ returning_clause esc (update_options_returning options), ps1)
         \<and> delete_query esc t (Some entries) options =
           Inr (''DELETE FROM '' @ esc t
                @ '' WHERE '' @ join '', '' conds2
                @ returning_clause esc (update_options_returning options), ps2)
         \<and> join '', '' (c1 # c2 # cs) = c1 @ '', '' @ join '', '' (c2 # cs)
         \<and> update_query quote_identifier ''t'' [(''x'', JNum (Fin 5))]
             (Some [(''a'', JNum (Fin 1)), (''b'', JStr ''z'')]) None =
           Inr (''UPDATE "t" SET "x" = $1 WHERE "a" = $2, "b" = $3'',
                [JNum (Fin 5), JNum (Fin 1), JStr ''z''])
         \<and> delete_query quote_identifier ''t''
             (Some [(''a'', JNum (Fin 1)), (''b'', JStr ''z'')]) None =
           Inr (''DELETE FROM "t" WHERE "a" = $1, "b" = $2'', [JNum (Fin 1), JStr ''z''])\<close>
proof -
  have u: \<open>update_query quote_identifier ''t'' [(''x'', JNum (Fin 5))]
      (Some [(''a'', JNum (Fin 1)), (''b'', JStr ''z'')]) None =
      Inr (''UPDATE "t" SET "x" = $1 WHERE "a" = $2, "b" = $3'',
           [JNum (Fin 5), JNum (Fin 1), JStr ''z''])\<close>
    by code_simp
  have d: \<open>delete_query quote_identifier ''t''
      (Some [(''a'', JNum (Fin 1)), (''b'', JStr ''z'')]) None =
      Inr (''DELETE FROM "t" WHERE "a" = $1, "b" = $2'', [JNum (Fin 1), JStr ''z''])\<close>
    by code_simp
  have upd: "update_query esc t vals (Some entries) options =
      Inr (''UPDATE '' @ esc t @ '' SET '' @ join '', '' sets
           @ '' WHERE '' @ join '', '' conds1
           @ returning_clause esc (update_options_returning options), ps1)"
    by (simp add: update_query_def assms(1) addWhereToSQL_result [OF assms(2)]
        concat_addReturningToSQL)
  have del: "delete_query esc t (Some entries) options =
      Inr (''DELETE FROM '' @ esc t @ '' WHERE '' @ join '', '' conds2
           @ returning_clause esc (update_options_returning options), ps2)"
    by (simp add: delete_query_def addWhereToSQL_result [OF assms(3)]
        concat_addReturningToSQL)
  show ?thesis
    using upd del u d by simp
qed

theorem where_joined_by_comma_witness:
  \<open>update_loop quote_identifier [(''x'', JNum (Fin 5))] ([], []) =
      Inr ([JNum (Fin 5)], [''"x" = $1''])
   \<and> where_loop quote_identifier [(''a'', JNum (Fin 1)), (''b'', JNum (Fin 2))]
        ([JNum (Fin 5)], []) =
      Inr ([JNum (Fin 5), JNum (Fin 1), JNum (Fin 2)], [''"a" = $2'', ''"b" = $3''])
   \<and> where_loop quote_identifier [(''a'', JNum (Fin 1)), (''b'', JNum (Fin 2))] ([], []) =
      Inr ([JNum (Fin 1), JNum (Fin 2)], [''"a" = $1'', ''"b" = $2''])
   \<and> delete_query quote_identifier ''t''
        (Some [(''a'', JNum (Fin 1)), (''b'', JNum (Fin 2))]) None =
      Inr (''DELETE FROM "t" WHERE "a" = $1, "b" = $2'', [JNum (Fin 1), JNum (Fin 2)])
   \<and> update_query quote_identifier ''t'' [(''x'', JNum (Fin 5))]
        (Some [(''a'', JNum (Fin 1)), (''b'', JNum (Fin 2))]) None =
      Inr (''UPDATE "t" SET "x" = $1 WHERE "a" = $2, "b" = $3'',
           [JNum (Fin 5), JNum (Fin 1), JNum (Fin 2)])\<close>
proof -
  let ?w = "[(''a'', JNum (Fin 1)), (''b'', JNum (Fin 2))]"
  have h1: \<open>update_loop quote_identifier [(''x'', JNum (Fin 5))] ([], []) =
      Inr ([JNum (Fin 5)], [''"x" = $1''])\<close>
    by code_simp
  have h2: \<open>where_loop quote_identifier ?w ([JNum (Fin 5)], []) =
      Inr ([JNum (Fin 5), JNum (Fin 1), JNum (Fin 2)], [''"a" = $2'', ''"b" = $3''])\<close>
    by code_simp
  have h3: \<open>where_loop quote_identifier ?w ([], []) =
      Inr ([JNum (Fin 1), JNum (Fin 2)], [''"a" = $1'', ''"b" = $2''])\<close>
    by code_simp
  note inst = where_joined_by_comma [OF h1 h2 h3, of "''t''" None]
  have d: \<open>delete_query quote_identifier ''t'' (Some ?w) None =
      Inr (''DELETE FROM "t" WHERE "a" = $1, "b" = $2'', [JNum (Fin 1), JNum (Fin 2)])\<close>
    using inst by (simp add: quote_identifier_def returning_clause_def update_options_returning_def)
  have u: \<open>update_query quote_identifier ''t'' [(''x'', JNum (Fin 5))] (Some ?w) None =
      Inr (''UPDATE "t" SET "x" = $1 WHERE "a" = $2, "b" = $3'',
           [JNum (Fin 5), JNum (Fin 1), JNum (Fin 2)])\<close>
    using inst by (simp add: quote_identifier_def returning_clause_def update_options_returning_def)
  show ?thesis
    by (intro conjI) (rule h1 h2 h3 d u)+
qed

lemma not_nullish_iff: "not_nullish v = (v \<noteq> JNull \<and> v \<noteq> JUndefined)"
  by (cases v) simp_all

text \<open>
  C10: for a WHERE entry whose value is an object, the operator is dispatched only when
  the \<open>value\<close> field and the \<open>operator\<close> field are both neither \<open>null\<close> nor
  \<open>undefined\<close>, so that the operator Equal, which is the number 0, is accepted. An object
  with one of the two fields \<open>null\<close> or \<open>undefined\<close>, and so every object whose
  \<open>value\<close> field is, whatever its operator, is itself appended to the parameter list
  and compared as \<open>column = $n\<close>. An object with both fields set has its \<open>value\<close>
  appended and its operator dispatched: a member of the enum emits its fragment, anything
  else emits none. So no dispatched condition has a \<open>null\<close> value.
\<close>

theorem where_dispatch_guard:
  "(is_condition (JObj fs) = Inr True) =
     (field (JObj fs) ''value'' \<noteq> JNull \<and> field (JObj fs) ''value'' \<noteq> JUndefined
      \<and> field (JObj fs) ''operator'' \<noteq> JNull \<and> field (JObj fs) ''operator'' \<noteq> JUndefined)
   \<and> (field (JObj fs) ''value'' = JNull \<or> field (JObj fs) ''value'' = JUndefined
       \<or> field (JObj fs) ''operator'' = JNull \<or> field (JObj fs) ''operator'' = JUndefined \<longrightarrow>
        where_item esc (col, JObj fs) (ps, conds) =
          Inr (ps @ [JObj fs], conds @ [esc col @ '' = $'' @ toString (length ps + 1)]))
   \<and> (field (JObj fs) ''value'' \<noteq> JNull \<and> field (JObj fs) ''value'' \<noteq> JUndefined
       \<and> field (JObj fs) ''operator'' \<noteq> JNull \<and> field (JObj fs) ''operator'' \<noteq> JUndefined \<longrightarrow>
        where_item esc (col, JObj fs) (ps, conds) =
          (case switch_operator (field (JObj fs) ''operator'') of
             None \<Rightarrow> Inr (ps @ [field (JObj fs) ''value''], conds)
           | Some opr \<Rightarrow>
               if opr = Between then
                 Inr (ps @ [field (JObj fs) ''value'', field (JObj fs) ''betweenUpperValue''],
                      conds @ [esc col @ '' BETWEEN $'' @ toString (length ps + 1)
                               @ '' AND $'' @ toString (length ps + 2)])
               else
                 Inr (ps @ [field (JObj fs) ''value''],
                      conds @ [esc col @ operator_text opr @ toString (length ps + 1)])))
   \<and> (v \<noteq> JNull \<and> v \<noteq> JUndefined \<longrightarrow>
        where_item esc (col, JObj [(''value'', v), (''operator'', JNum (Fin (operator_code Equal)))])
          (ps, conds) =
          Inr (ps @ [v], conds @ [esc col @ '' = $'' @ toString (length ps + 1)]))"
proof -
  have guard: "(is_condition (JObj fs) = Inr True) =
     (field (JObj fs) ''value'' \<noteq> JNull \<and> field (JObj fs) ''value'' \<noteq> JUndefined
      \<and> field (JObj fs) ''operator'' \<noteq> JNull \<and> field (JObj fs) ''operator'' \<noteq> JUndefined)"
    by (auto simp: is_condition_object not_nullish_iff)
  have rejected: "field (JObj fs) ''value'' = JNull \<or> field (JObj fs) ''value'' = JUndefined
       \<or> field (JObj fs) ''operator'' = JNull \<or> field (JObj fs) ''operator'' = JUndefined \<Longrightarrow>
      where_item esc (col, JObj fs) (ps, conds) =
        Inr (ps @ [JObj fs], conds @ [esc col @ '' = $'' @ toString (length ps + 1)])"
  proof -
    assume "field (JObj fs) ''value'' = JNull \<or> field (JObj fs) ''value'' = JUndefined
       \<or> field (JObj fs) ''operator'' = JNull \<or> field (JObj fs) ''operator'' = JUndefined"
    then have "is_condition (JObj fs) = Inr False"
      unfolding is_condition_object not_nullish_iff by auto
    then show ?thesis by (simp add: where_item_def Let_def)
  qed
  have dispatched: "field (JObj fs) ''value'' \<noteq> JNull \<and> field (JObj fs) ''value'' \<noteq> JUndefined
       \<and> field (JObj fs) ''operator'' \<noteq> JNull \<and> field (JObj fs) ''operator'' \<noteq> JUndefined \<Longrightarrow>
      where_item esc (col, JObj fs) (ps, conds) =
        (case switch_operator (field (JObj fs) ''operator'') of
           None \<Rightarrow> Inr (ps @ [field (JObj fs) ''value''], conds)
         | Some opr \<Rightarrow>
             if opr = Between then
               Inr (ps @ [field (JObj fs) ''value'', field (JObj fs) ''betweenUpperValue''],
                    conds @ [esc col @ '' BETWEEN $'' @ toString (length ps + 1)
                             @ '' AND $'' @ toString (length ps + 2)])
             else
               Inr (ps @ [field (JObj fs) ''value''],
                    conds @ [esc col @ operator_text opr @ toString (length ps + 1)]))"
  proof -
    assume "field (JObj fs) ''value'' \<noteq> JNull \<and> field (JObj fs) ''value'' \<noteq> JUndefined
       \<and> field (JObj fs) ''operator'' \<noteq> JNull \<and> field (JObj fs) ''operator'' \<noteq> JUndefined"
    then have c: "is_condition (JObj fs) = Inr True"
      using guard by simp
    show ?thesis
    proof (cases "switch_operator (field (JObj fs) ''operator'')")
      case None
      then show ?thesis by (simp add: where_item_def c Let_def)
    next
      case (Some opr)
      then show ?thesis by (cases opr) (simp_all add: where_item_def c Let_def)
    qed
  qed
  have equal: "v \<noteq> JNull \<and> v \<noteq> JUndefined \<Longrightarrow>
      where_item esc (col, JObj [(''value'', v), (''operator'', JNum (Fin (operator_code Equal)))])
        (ps, conds) =
        Inr (ps @ [v], conds @ [esc col @ '' = $'' @ toString (length ps + 1)])"
    by (auto simp: is_condition_object not_nullish_iff where_item_def Let_def)
  show ?thesis
    using guard rejected dispatched equal by blast
qed

theorem where_dispatch_guard_witness:
  \<open>field (JObj [(''value'', JNull), (''operator'', JNum (Fin 2))]) ''value'' = JNull
   \<and> where_item quote_identifier (''c'', JObj [(''value'', JNull), (''operator'', JNum (Fin 2))])
        ([], []) =
      Inr ([JObj [(''value'', JNull), (''operator'', JNum (Fin 2))]], [''"c" = $1''])
   \<and> field (JObj [(''value'', JNum (Fin 5))]) ''operator'' = JUndefined
   \<and> where_item quote_identifier (''c'', JObj [(''value'', JNum (Fin 5))]) ([], []) =
      Inr ([JObj [(''value'', JNum (Fin 5))]], [''"c" = $1''])
   \<and> where_item quote_identifier
        (''c'', JObj [(''value'', JNum (Fin 5)), (''operator'', JNum (Fin 4))]) ([], []) =
      Inr ([JNum (Fin 5)], [''"c" > $1''])
   \<and> JStr ''x'' \<noteq> JNull \<and> JStr ''x'' \<noteq> JUndefined
   \<and> where_item quote_identifier
        (''c'', JObj [(''value'', JStr ''x''), (''operator'', JNum (Fin 0))]) ([], []) =
      Inr ([JStr ''x''], [''"c" = $1''])\<close>
proof -
  let ?fs = "[(''value'', JNull), (''operator'', JNum (Fin 2))]"
  let ?gs = "[(''value'', JNum (Fin 5))]"
  let ?hs = "[(''value'', JNum (Fin 5)), (''operator'', JNum (Fin 4))]"
  have h: "field (JObj ?fs) ''value'' = JNull" by simp
  have g: "field (JObj ?gs) ''operator'' = JUndefined" by simp
  note inst = where_dispatch_guard [of ?fs quote_identifier "''c''" "[]" "[]" "JStr ''x''"]
  have a: \<open>where_item quote_identifier (''c'', JObj ?fs) ([], []) =
      Inr ([JObj ?fs], [''"c" = $1''])\<close>
    using inst h by (simp add: quote_identifier_def toString.simps)
  have b: \<open>where_item quote_identifier
        (''c'', JObj [(''value'', JStr ''x''), (''operator'', JNum (Fin 0))]) ([], []) =
      Inr ([JStr ''x''], [''"c" = $1''])\<close>
    using inst by (simp add: quote_identifier_def toString.simps)
  have c: \<open>where_item quote_identifier (''c'', JObj ?gs) ([], []) =
      Inr ([JObj ?gs], [''"c" = $1''])\<close>
    using where_dispatch_guard [of ?gs quote_identifier "''c''" "[]" "[]" "JStr ''x''"] g
    by (simp add: quote_identifier_def toString.simps)
  have d: \<open>where_item quote_identifier (''c'', JObj ?hs) ([], []) =
      Inr ([JNum (Fin 5)], [''"c" > $1''])\<close>
    using where_dispatch_guard [of ?hs quote_identifier "''c''" "[]" "[]" "JStr ''x''"]
    by (simp add: quote_identifier_def toString.simps)
  show ?thesis
    using h g a b c d by simp
qed

section \<open>Properties of withTx\<close>

text \<open>
  C9, as amended: for every unit of work run under withTx, that is, after BEGIN has
  returned: if the unit of work completes, COMMIT is issued, and when COMMIT returns the
  result of the unit of work is returned, while when COMMIT throws ROLLBACK is issued
  and the error of COMMIT propagates; if the unit of work throws, ROLLBACK is issued
  before the error propagates, and whatever ROLLBACK does, throwing too, the caller gets
  the error of the unit of work.
\<close>

theorem withTx_protocol:
  assumes "query ''BEGIN'' s = (Inr q, s1)"
  shows "(cb s1 = (Inr res, s2) \<and> query ''COMMIT'' s2 = (Inr q', s3) \<longrightarrow>
            withTx query cb s = (Inr res, s3))
       \<and> (cb s1 = (Inr res, s2) \<and> query ''COMMIT'' s2 = (Inl cerr, s3)
            \<and> query ''ROLLBACK'' s3 = (r, s4) \<longrightarrow>
            withTx query cb s = (Inl cerr, s4))
       \<and> (cb s1 = (Inl err, s2) \<and> query ''ROLLBACK'' s2 = (r, s3) \<longrightarrow>
            withTx query cb s = (Inl err, s3))"
  using assms by (simp add: withTx_def)

theorem withTx_protocol_witness:
  "logging_query [''ROLLBACK''] ''BEGIN'' [] = (Inr (), [''BEGIN''])
   \<and> failing_work [''BEGIN''] = (Inl ''work failed'', [''BEGIN'', ''INSERT''])
   \<and> logging_query [''ROLLBACK''] ''ROLLBACK'' [''BEGIN'', ''INSERT'']
       = (Inl ''ROLLBACK failed'', [''BEGIN'', ''INSERT'', ''ROLLBACK''])
   \<and> withTx (logging_query [''ROLLBACK'']) failing_work []
       = (Inl ''work failed'', [''BEGIN'', ''INSERT'', ''ROLLBACK''])
   \<and> completing_work [''BEGIN''] = (Inr 7, [''BEGIN'', ''INSERT''])
   \<and> logging_query [] ''COMMIT'' [''BEGIN'', ''INSERT'']
       = (Inr (), [''BEGIN'', ''INSERT'', ''COMMIT''])
   \<and> withTx (logging_query []) completing_work []
       = (Inr 7, [''BEGIN'', ''INSERT'', ''COMMIT''])"
proof -
  have b1: "logging_query [''ROLLBACK''] ''BEGIN'' [] = (Inr (), [''BEGIN''])"
    by (simp add: logging_query_def)
  have w1: "failing_work [''BEGIN''] = (Inl ''work failed'', [''BEGIN'', ''INSERT''])"
    by (simp add: failing_work_def)
  have r1: "logging_query [''ROLLBACK''] ''ROLLBACK'' [''BEGIN'', ''INSERT'']
      = (Inl ''ROLLBACK failed'', [''BEGIN'', ''INSERT'', ''ROLLBACK''])"
    by (simp add: logging_query_def)
  have t1: "withTx (logging_query [''ROLLBACK'']) failing_work []
      = (Inl ''work failed'', [''BEGIN'', ''INSERT'', ''ROLLBACK''])"
    using withTx_protocol [of "logging_query [''ROLLBACK'']" "[]" "()" "[''BEGIN'']" failing_work] b1 w1 r1
    by blast
  have b2: "logging_query [] ''BEGIN'' [] = (Inr (), [''BEGIN''])"
    by (simp add: logging_query_def)
  have w2: "completing_work [''BEGIN''] = (Inr 7, [''BEGIN'', ''INSERT''])"
    by (simp add: completing_work_def)
  have c2: "logging_query [] ''COMMIT'' [''BEGIN'', ''INSERT'']
      = (Inr (), [''BEGIN'', ''INSERT'', ''COMMIT''])"
    by (simp add: logging_query_def)
  have t2: "withTx (logging_query []) completing_work []
      = (Inr 7, [''BEGIN'', ''INSERT'', ''COMMIT''])"
    using withTx_protocol [of "logging_query []" "[]" "()" "[''BEGIN'']" completing_work] b2 w2 c2
    by blast
  show ?thesis
    by (intro conjI) (rule b1 w1 r1 t1 w2 c2 t2)+
qed

text \<open>When BEGIN throws, its error propagates and the unit of work is not run.\<close>

lemma withTx_begin_fails:
  "query ''BEGIN'' s = (Inl err, s1) \<Longrightarrow> withTx query cb s = (Inl err, s1)"
  by (simp add: withTx_def)

text \<open>
  C9 as it is stated fails when COMMIT throws: the unit of work has completed, and its
  result is not returned.
\<close>

theorem commit_failure_counterexample:
  "withTx (logging_query [''COMMIT'']) completing_work []
     = (Inl ''COMMIT failed'', [''BEGIN'', ''INSERT'', ''COMMIT'', ''ROLLBACK''])"
  by (simp add: withTx_def logging_query_def completing_work_def)

section \<open>Properties of the decoders\<close>

subsection \<open>Registration\<close>

lemma registerParsers_initialized: "initialized (registerParsers s)"
  by (simp add: registerParsers_def)

lemma registerParsers_noop: "initialized s \<Longrightarrow> registerParsers s = s"
  by (simp add: registerParsers_def)

text \<open>
  C8: registerParsers called twice, or any number of times from one on, leaves the state
  that one call leaves: after the first call the flag is set and every further call
  changes nothing.
\<close>

theorem registerParsers_idempotent:
  "registerParsers (registerParsers s) = registerParsers s
   \<and> (registerParsers ^^ Suc n) s = registerParsers s"
proof -
  have twice: "registerParsers (registerParsers s) = registerParsers s"
    by (rule registerParsers_noop) (rule registerParsers_initialized)
  have "(registerParsers ^^ Suc n) s = registerParsers s"
  proof (induction n)
    case 0
    show ?case by simp
  next
    case (Suc n)
    have "(registerParsers ^^ Suc (Suc n)) s = registerParsers ((registerParsers ^^ Suc n) s)"
      by simp
    also have "\<dots> = registerParsers (registerParsers s)"
      by (simp only: Suc.IH)
    also have "\<dots> = registerParsers s"
      by (rule twice)
    finally show ?case .
  qed
  with twice show ?thesis by simp
qed

theorem registerParsers_idempotent_witness:
  "registerParsers (registerParsers initial_state) = registerParsers initial_state
   \<and> (registerParsers ^^ 3) initial_state = registerParsers initial_state
   \<and> getTypeParser (types (registerParsers initial_state)) INT8 ''text''
       = Some Fn_parseDbBigInteger"
proof -
  have "(registerParsers ^^ Suc 2) initial_state = registerParsers initial_state"
    using registerParsers_idempotent [of initial_state 2] by blast
  moreover have "registerParsers (registerParsers initial_state) = registerParsers initial_state"
    using registerParsers_idempotent [of initial_state 2] by blast
  moreover have "getTypeParser (types (registerParsers initial_state)) INT8 ''text''
       = Some Fn_parseDbBigInteger"
    by (simp add: registerParsers_def initial_state_def registrations_def setTypeParser_def
        getTypeParser_def BOOL_def BYTEA_def INT8_def INT2_def INT4_def FLOAT4_def FLOAT8_def
        MONEY_def DATE_def TIME_def TIMESTAMP_def TIMESTAMPTZ_def TIMETZ_def NUMERIC_def)
  ultimately show ?thesis
    by (simp add: eval_nat_numeral)
qed

subsection \<open>The wire value null\<close>

text \<open>
  Every registered decoder but the one of the scalar byte array returns \<open>null\<close> on
  \<open>null\<close>, whatever the libraries do; and an entry \<open>null\<close> of an array stays
  \<open>null\<close> in the parsed array.
\<close>

lemma decoders_null:
  "fn \<noteq> Fn_parseByteA \<Longrightarrow> call_parser ext fn None = Inr (Value JNull)"
  by (cases fn)
     (simp_all add: lift_value_def parseDbDate_def parseDbInteger_def parseDbBigInteger_def
        parseDbFloat_def parseDbBigFloat_def parseDbBool_def parseDbDateArray_def
        parseDbIntegerArray_def parseDbBigIntegerArray_def parseDbFloatArray_def
        parseDbBigFloatArray_def parseDbBoolArray_def parseByteAArray_def)

lemma entry_callback_null: "entry_callback ext t None = Inr JNull"
  by (simp add: entry_callback_def)

lemma map_entries_nth:
  "map_entries f xs = Inr ys \<Longrightarrow> i < length xs \<Longrightarrow> f (xs ! i) = Inr (ys ! i)"
proof (induction xs arbitrary: ys i)
  case Nil
  then show ?case by simp
next
  case (Cons x xs)
  then show ?case
    by (cases i) (auto split: sum.splits)
qed

lemma parse_null_entries:
  assumes "array_entries ext (captured_value p) = Inr entries"
    and "parse ext p = Inr ys" and "i < length entries" and "entries ! i = None"
  shows "ys ! i = JNull"
proof -
  have "map_entries (entry_callback ext (captured_transform p)) entries = Inr ys"
    using assms(1,2) by (simp add: parse_def)
  from map_entries_nth [OF this assms(3)] show ?thesis
    by (simp add: assms(4) entry_callback_null)
qed

text \<open>
  C7: every registered decoder, given the wire value \<open>null\<close>, returns \<open>null\<close>
  without calling its transform. The code evaluated at the decoder registered for BYTEA:
  it is the byte decoder of the library itself, with no test for \<open>null\<close> before it,
  so a call on \<open>null\<close> is a call of the transform; with a transform that throws when
  it is called, the decoder throws.
\<close>

theorem bytea_decoder_null:
  "getTypeParser (types (registerParsers initial_state)) BYTEA ''binary'' = Some Fn_parseByteA
   \<and> call_parser throwing_externals Fn_parseByteA None = Inl TypeError"
  by (simp add: registerParsers_def initial_state_def registrations_def setTypeParser_def
      getTypeParser_def BOOL_def BYTEA_def INT8_def INT2_def INT4_def FLOAT4_def FLOAT8_def
      MONEY_def DATE_def TIME_def TIMESTAMP_def TIMESTAMPTZ_def TIMETZ_def NUMERIC_def
      throwing_externals_def lift_value_def)

subsection \<open>The 64-bit integer decoder\<close>

lemmas decode_defs =
  parseDbBigInteger_def num_le_def MIN_SAFE_INTEGER_def MAX_SAFE_INTEGER_def parseInt_def
  is_white_def is_digit_def digits_value_def radix_digit_def to_number_def round_double_def
  bits.simps BigInt_def trim_def all_digits_def

text \<open>
  Rounding to a double is exact below \<open>2 ^ 53\<close> and never falls below \<open>2 ^ 53\<close>
  from there on, so the test of the safe range on the parsed number is the test on the
  integer that the digits denote.
\<close>

lemma bits_0: "bits 0 = 0"
  by (simp add: bits.simps)

lemma bits_le_iff: "bits n \<le> k \<longleftrightarrow> n < 2 ^ k"
proof (induction k arbitrary: n)
  case 0
  show ?case by (simp add: bits.simps [of n])
next
  case (Suc k)
  show ?case
  proof (cases "n = 0")
    case True
    then show ?thesis by (simp add: bits_0)
  next
    case False
    then have "bits n \<le> Suc k \<longleftrightarrow> bits (n div 2) \<le> k"
      by (simp add: bits.simps [of n])
    also have "\<dots> \<longleftrightarrow> n div 2 < 2 ^ k" by (rule Suc.IH)
    also have "\<dots> \<longleftrightarrow> n < 2 ^ Suc k" by auto
    finally show ?thesis .
  qed
qed

lemma round_double_small: "n < 2 ^ 53 \<Longrightarrow> round_double n = n"
  by (simp add: round_double_def bits_le_iff)

lemma round_double_large:
  assumes "2 ^ 53 \<le> n"
  shows "2 ^ 53 \<le> round_double n"
proof -
  have big: "\<not> bits n \<le> 53" using assms by (simp add: bits_le_iff)
  define e where "e = bits n - 53"
  have e: "1 \<le> e" and bn: "bits n = e + 53" using big by (simp_all add: e_def)
  have "\<not> bits n \<le> e + 52" using bn by simp
  then have low: "2 ^ (e + 52) \<le> n" by (simp add: bits_le_iff)
  have "(2::nat) ^ 52 = 2 ^ (e + 52) div 2 ^ e"
    by (simp add: power_add)
  also have "\<dots> \<le> n div 2 ^ e" using low by (rule div_le_mono)
  finally have q: "2 ^ 52 \<le> n div 2 ^ e" .
  let ?q' = "if 2 ^ (e - 1) < n mod 2 ^ e \<or> (n mod 2 ^ e = 2 ^ (e - 1) \<and> odd (n div 2 ^ e))
             then n div 2 ^ e + 1 else n div 2 ^ e"
  have q': "2 ^ 52 \<le> ?q'" using q by simp
  have "(2::nat) ^ 53 = 2 ^ 52 * 2 ^ 1" by simp
  also have "\<dots> \<le> 2 ^ 52 * 2 ^ e"
    using e by (intro mult_le_mono2 power_increasing) simp_all
  also have "\<dots> \<le> ?q' * 2 ^ e" using q' by (rule mult_le_mono1)
  finally have goal: "2 ^ 53 \<le> ?q' * 2 ^ e" .
  have rd: "round_double n = ?q' * 2 ^ e"
    by (simp only: round_double_def Let_def e_def big if_False)
  show ?thesis
    unfolding rd by (rule goal)
qed

lemma to_number_safe:
  "(num_le MIN_SAFE_INTEGER (to_number neg n) \<and> num_le (to_number neg n) MAX_SAFE_INTEGER)
     \<longleftrightarrow> n \<le> 9007199254740991"
proof (cases "n < 2 ^ 53")
  case True
  then have "round_double n = n" by (rule round_double_small)
  moreover have "n < 2 ^ 1024"
    using True by (rule less_le_trans) simp
  ultimately show ?thesis
    using True
    by (simp add: to_number_def num_le_def MIN_SAFE_INTEGER_def MAX_SAFE_INTEGER_def)
next
  case False
  then have "2 ^ 53 \<le> n" by simp
  then have "2 ^ 53 \<le> round_double n" by (rule round_double_large)
  then show ?thesis
    using False
    by (simp add: to_number_def num_le_def MIN_SAFE_INTEGER_def MAX_SAFE_INTEGER_def Let_def)
qed

lemma to_number_exact:
  "n \<le> 9007199254740991 \<Longrightarrow>
   to_number neg n = (if neg then (if n = 0 then NegZero else Fin (- int n)) else Fin (int n))"
proof -
  assume a: "n \<le> 9007199254740991"
  then have "n < 2 ^ 53" by simp
  then have r: "round_double n = n" by (rule round_double_small)
  have "n < 2 ^ 1024" using \<open>n < 2 ^ 53\<close> by (rule less_le_trans) simp
  then show ?thesis by (simp add: to_number_def r)
qed

text \<open>
  On the text of an integer (decimal digits, with or without a minus sign before them) the
  decoder loses nothing: it returns the integer as a number when it is in the safe range
  and as an arbitrary-precision integer otherwise.
\<close>

lemma digit_not_white: "is_digit c \<Longrightarrow> \<not> is_white c"
  by (auto simp: is_digit_def is_white_def)

lemma digit_not_sign: "is_digit c \<Longrightarrow> c \<noteq> CHR ''-'' \<and> c \<noteq> CHR ''+''"
  by (auto simp: is_digit_def)

lemma digit_radix: "is_digit c \<Longrightarrow> radix_digit 10 c \<noteq> None"
  by (auto simp: is_digit_def radix_digit_def Let_def)

lemma digit_not_prefix_letter:
  "is_digit c \<Longrightarrow> c \<notin> set ''xXoObB''"
  by (auto simp: is_digit_def)

lemma dropWhile_hd: "xs \<noteq> [] \<Longrightarrow> \<not> P (hd xs) \<Longrightarrow> dropWhile P xs = xs"
  by (cases xs) simp_all

lemma trim_id:
  assumes "xs \<noteq> []" and "\<not> is_white (hd xs)" and "\<not> is_white (last xs)"
  shows "trim xs = xs"
proof -
  have "dropWhile is_white xs = xs" using assms(1,2) by (rule dropWhile_hd)
  moreover have "dropWhile is_white (rev xs) = rev xs"
    using assms(1,3) by (intro dropWhile_hd) (simp_all add: hd_rev)
  ultimately show ?thesis by (simp add: trim_def)
qed

lemma parseInt_digits:
  assumes "ds \<noteq> []" and "\<forall>c\<in>set ds. is_digit c"
  shows "parseInt ds = to_number False (digits_value 10 ds)"
    and "parseInt (CHR ''-'' # ds) = to_number True (digits_value 10 ds)"
proof -
  have hd: "is_digit (hd ds)" using assms by simp
  have tw: "takeWhile is_digit ds = ds" using assms(2) by (simp add: takeWhile_eq_all_conv)
  have dw: "dropWhile is_white ds = ds"
    using assms(1) digit_not_white [OF hd] by (rule dropWhile_hd)
  show "parseInt ds = to_number False (digits_value 10 ds)"
    using assms(1) digit_not_sign [OF hd] by (simp add: parseInt_def dw tw Let_def)
  have "\<not> is_white CHR ''-''" by (simp add: is_white_def)
  then show "parseInt (CHR ''-'' # ds) = to_number True (digits_value 10 ds)"
    using assms(1) by (simp add: parseInt_def tw Let_def)
qed

lemma BigInt_digits:
  assumes "ds \<noteq> []" and "\<forall>c\<in>set ds. is_digit c"
  shows "BigInt ds = Inr (JBigInt (int (digits_value 10 ds)))"
    and "BigInt (CHR ''-'' # ds) = Inr (JBigInt (- int (digits_value 10 ds)))"
proof -
  have hd: "is_digit (hd ds)" and lst: "is_digit (last ds)" using assms by simp_all
  have all: "all_digits 10 ds"
    using assms digit_radix by (auto simp: all_digits_def list_all_iff)
  have t1: "trim ds = ds"
    using assms(1) digit_not_white [OF hd] digit_not_white [OF lst] by (rule trim_id)
  have t2: "trim (CHR ''-'' # ds) = CHR ''-'' # ds"
    using assms(1) digit_not_white [OF lst] by (intro trim_id) (simp_all add: is_white_def)
  obtain d rest where ds: "ds = d # rest" using assms(1) by (cases ds) auto
  have d: "is_digit d" using hd ds by simp
  have p1: "take 2 ds \<notin> set [''0x'', ''0X'', ''0o'', ''0O'', ''0b'', ''0B'']"
  proof (cases rest)
    case Nil
    then show ?thesis using ds by simp
  next
    case (Cons d2 rest2)
    then have "is_digit d2" using assms(2) ds by simp
    from digit_not_prefix_letter [OF this] show ?thesis using ds Cons by auto
  qed
  have p2: "take 2 (CHR ''-'' # ds) \<notin> set [''0x'', ''0X'', ''0o'', ''0O'', ''0b'', ''0B'']"
    using ds by simp
  show "BigInt ds = Inr (JBigInt (int (digits_value 10 ds)))"
    using p1 assms(1) digit_not_sign [OF hd] all by (simp add: BigInt_def t1 Let_def)
  show "BigInt (CHR ''-'' # ds) = Inr (JBigInt (- int (digits_value 10 ds)))"
    using p2 all by (simp add: BigInt_def t2 Let_def)
qed

lemma parseDbBigInteger_exact:
  assumes "ds \<noteq> []" and "\<forall>c\<in>set ds. is_digit c"
  shows "parseDbBigInteger (Some ds) =
           (if digits_value 10 ds \<le> 9007199254740991
            then Inr (JNum (Fin (int (digits_value 10 ds))))
            else Inr (JBigInt (int (digits_value 10 ds))))"
    and "parseDbBigInteger (Some (CHR ''-'' # ds)) =
           (if digits_value 10 ds \<le> 9007199254740991
            then Inr (JNum (if digits_value 10 ds = 0 then NegZero
                            else Fin (- int (digits_value 10 ds))))
            else Inr (JBigInt (- int (digits_value 10 ds))))"
  using to_number_safe [of False "digits_value 10 ds"] to_number_safe [of True "digits_value 10 ds"]
    to_number_exact [of "digits_value 10 ds" False] to_number_exact [of "digits_value 10 ds" True]
  by (simp_all add: parseDbBigInteger_def parseInt_digits [OF assms] BigInt_digits [OF assms]
      Let_def)

text \<open>
  C6, as amended: for every text, the decoder parses it with \<open>parseInt\<close> in base 10 and
  returns that number when it lies in the safe-integer range; otherwise it returns what
  \<open>BigInt\<close> makes of the text itself, which is an arbitrary-precision integer or, for a
  text that is no integer literal, a SyntaxError. In particular
  \<open>"9007199254740993"\<close> gives the arbitrary-precision integer 9007199254740993 and
  \<open>"42"\<close> gives the number 42.
\<close>

theorem parseDbBigInteger_cases:
  "(num_le MIN_SAFE_INTEGER (parseInt s) \<and> num_le (parseInt s) MAX_SAFE_INTEGER \<longrightarrow>
      parseDbBigInteger (Some s) = Inr (JNum (parseInt s)))
   \<and> (\<not> (num_le MIN_SAFE_INTEGER (parseInt s) \<and> num_le (parseInt s) MAX_SAFE_INTEGER) \<longrightarrow>
      parseDbBigInteger (Some s) = BigInt s)
   \<and> (BigInt s = Inl SyntaxError \<or> (\<exists>i. BigInt s = Inr (JBigInt i)))
   \<and> parseDbBigInteger (Some ''9007199254740993'') = Inr (JBigInt 9007199254740993)
   \<and> parseDbBigInteger (Some ''42'') = Inr (JNum (Fin 42))"
proof -
  have big: "parseDbBigInteger (Some ''9007199254740993'') = Inr (JBigInt 9007199254740993)"
    by (simp add: decode_defs)
  have small: "parseDbBigInteger (Some ''42'') = Inr (JNum (Fin 42))"
    by (simp add: decode_defs)
  have ctor: "BigInt s = Inl SyntaxError \<or> (\<exists>i. BigInt s = Inr (JBigInt i))"
    by (simp add: BigInt_def Let_def)
  have safe: "num_le MIN_SAFE_INTEGER (parseInt s) \<and> num_le (parseInt s) MAX_SAFE_INTEGER \<Longrightarrow>
      parseDbBigInteger (Some s) = Inr (JNum (parseInt s))"
    by (simp add: parseDbBigInteger_def Let_def)
  have unsafe: "\<not> (num_le MIN_SAFE_INTEGER (parseInt s) \<and> num_le (parseInt s) MAX_SAFE_INTEGER) \<Longrightarrow>
      parseDbBigInteger (Some s) = BigInt s"
    by (auto simp: parseDbBigInteger_def Let_def)
  show ?thesis
    using big small ctor safe unsafe by blast
qed

theorem parseDbBigInteger_cases_witness:
  "num_le MIN_SAFE_INTEGER (parseInt ''-7'') \<and> num_le (parseInt ''-7'') MAX_SAFE_INTEGER
   \<and> parseDbBigInteger (Some ''-7'') = Inr (JNum (Fin (- 7)))
   \<and> \<not> num_le MIN_SAFE_INTEGER (parseInt ''-9007199254740993'')
   \<and> parseDbBigInteger (Some ''-9007199254740993'') = Inr (JBigInt (- 9007199254740993))"
proof -
  have p1: "parseInt ''-7'' = Fin (- 7)"
    by (simp add: decode_defs)
  have s1: "num_le MIN_SAFE_INTEGER (parseInt ''-7'') \<and> num_le (parseInt ''-7'') MAX_SAFE_INTEGER"
    unfolding p1 by (simp add: decode_defs)
  have r1: "parseDbBigInteger (Some ''-7'') = Inr (JNum (Fin (- 7)))"
    using parseDbBigInteger_cases [of "''-7''"] s1 p1 by simp
  have p2: "parseInt ''-9007199254740993'' = Fin (- 9007199254740992)"
    by (simp add: decode_defs)
  have s2: "\<not> num_le MIN_SAFE_INTEGER (parseInt ''-9007199254740993'')"
    unfolding p2 by (simp add: decode_defs)
  have b2: "BigInt ''-9007199254740993'' = Inr (JBigInt (- 9007199254740993))"
    by (simp add: decode_defs)
  have r2: "parseDbBigInteger (Some ''-9007199254740993'') = Inr (JBigInt (- 9007199254740993))"
    using parseDbBigInteger_cases [of "''-9007199254740993''"] s2 b2 by simp
  show ?thesis
    using s1 r1 s2 r2 by simp
qed

text \<open>
  C6 as it is stated fails on a text that is no integer literal: \<open>parseInt\<close> gives NaN,
  which is outside the safe range, and \<open>BigInt\<close> throws.
\<close>

theorem bigint_syntax_error_counterexample:
  "parseDbBigInteger (Some ''abc'') = Inl SyntaxError"
  by (simp add: decode_defs)

end
